theory Spec2Isabelle
  imports Main "HOL-Library.Sublist" "HOL-Library.AList" "HOL-Library.Word"
begin

section \<open>Go values used by the handlers of api/main.go\<close>

type_synonym byte = "8 word"

text \<open>
  Go \<open>error\<close> values. \<open>io_EOF\<close> and \<open>io_ErrClosedPipe\<close> are the sentinels of package io
  (compared with \<open>==\<close>), \<open>errorString\<close> is what \<open>fmt.Errorf\<close> builds, and \<open>awserr\<close> is an
  \<open>awserr.Error\<close> with its code, message and optional original error. \<open>Error\<close> is the
  method \<open>err.Error()\<close>.
\<close>

datatype error =
    io_EOF
  | io_ErrClosedPipe
  | errorString string
  | awserr string string "error option"

fun Error :: "error \<Rightarrow> string" where
  "Error io_EOF = ''EOF''"
| "Error io_ErrClosedPipe = ''io: read/write on closed pipe''"
| "Error (errorString s) = s"
| "Error (awserr code msg None) = code @ '': '' @ msg"
| "Error (awserr code msg (Some e)) =
     code @ '': '' @ msg @ [CHR 0x0A] @ ''caused by: '' @ Error e"

definition quote :: char where
  "quote = CHR 0x27"

definition dquote :: char where
  "dquote = CHR 0x22"

text \<open>\<open>strings.HasSuffix(s, suffix)\<close> and \<open>strings.Contains(s, substr)\<close>.\<close>

definition strings_HasSuffix :: "string \<Rightarrow> string \<Rightarrow> bool" where
  "strings_HasSuffix s suf = suffix suf s"

definition strings_Contains :: "string \<Rightarrow> string \<Rightarrow> bool" where
  "strings_Contains s substr = sublist substr s"

text \<open>The verb \<open>%d\<close> of \<open>fmt.Sprintf\<close>: a decimal numeral, with a sign when negative.\<close>

fun utoa :: "nat \<Rightarrow> string" where
  "utoa n = (if n < 10 then [''0123456789'' ! n]
             else utoa (n div 10) @ [''0123456789'' ! (n mod 10)])"

definition Sprintf_d :: "int \<Rightarrow> string" where
  "Sprintf_d i = (if i < 0 then CHR ''-'' # utoa (nat (- i)) else utoa (nat i))"

text \<open>
  \<open>filepath.Base\<close> on a system whose separator is \<open>/\<close>: the empty path gives \<open>.\<close>, trailing
  separators are stripped, the last element is kept, and a path of separators only
  gives \<open>/\<close>.
\<close>

definition IsPathSeparator :: "char \<Rightarrow> bool" where
  "IsPathSeparator c = (c = CHR ''/'')"

definition filepath_Base :: "string \<Rightarrow> string" where
  "filepath_Base path =
     (if path = [] then ''.''
      else let stripped = rev (dropWhile IsPathSeparator (rev path));
               elem = rev (takeWhile (\<lambda>c. \<not> IsPathSeparator c) (rev stripped))
           in if elem = [] then ''/'' else elem)"

section \<open>Constants and records of api/main.go\<close>

definition maxFileSizeMB :: int where
  "maxFileSizeMB = 50"

definition maxFileSizeByte :: int where
  "maxFileSizeByte = maxFileSizeMB * 1024 * 1024"

record FileInfo =
  Filename :: string
  Path :: string
  UploadedAt :: nat

section \<open>Readers and the pipe\<close>

text \<open>
  An \<open>io.Reader\<close> is the finite script of what its \<open>Read\<close> calls return, one pair
  \<open>(buf[:n], err)\<close> per call; once the script is used up every further \<open>Read\<close> returns
  \<open>(0, io.EOF)\<close>. \<open>delivered\<close> is the bytes a consumer sees up to the first call that
  returns an error, \<open>read_end\<close> that error.
\<close>

type_synonym read_result = "byte list \<times> error option"

type_synonym reader = "read_result list"

fun delivered :: "reader \<Rightarrow> byte list" where
  "delivered [] = []"
| "delivered ((chunk, None) # rest) = chunk @ delivered rest"
| "delivered ((chunk, Some e) # rest) = chunk"

fun read_end :: "reader \<Rightarrow> error" where
  "read_end [] = io_EOF"
| "read_end ((chunk, None) # rest) = read_end rest"
| "read_end ((chunk, Some e) # rest) = e"

text \<open>
  \<open>io.Pipe()\<close>: the bytes written so far, the error the read side was closed with and
  the error the write side was closed with (\<open>None\<close> while that side is open). The first
  close of a side wins; \<open>Close()\<close> on the write side stores \<open>io.EOF\<close>; \<open>Write\<close> fails once
  either side is closed, with the reader's error when only the read side is. The
  handler never closes the read side.
\<close>

record pipe =
  data :: "byte list"
  rerr :: "error option"
  werr :: "error option"

definition io_Pipe :: pipe where
  "io_Pipe = \<lparr>data = [], rerr = None, werr = None\<rparr>"

definition pw_CloseWithError :: "error \<Rightarrow> pipe \<Rightarrow> pipe" where
  "pw_CloseWithError e p = (case werr p of None \<Rightarrow> p\<lparr>werr := Some e\<rparr> | Some _ \<Rightarrow> p)"

definition pw_Close :: "pipe \<Rightarrow> pipe" where
  "pw_Close p = pw_CloseWithError io_EOF p"

definition pw_Write :: "byte list \<Rightarrow> pipe \<Rightarrow> error + pipe" where
  "pw_Write b p =
     (case werr p of
        Some _ \<Rightarrow> Inl io_ErrClosedPipe
      | None \<Rightarrow> (case rerr p of
                   Some e \<Rightarrow> Inl e
                 | None \<Rightarrow> Inr (p\<lparr>data := data p @ b\<rparr>)))"

text \<open>
  The producer goroutine of \<open>uploadFilesHandler\<close> (lines 215 to 240), with its deferred
  \<open>pw.Close()\<close> applied on every exit. It returns the pipe and the part of the file
  that was never read. \<open>currentSize\<close> is an \<open>int64\<close> in the source; a \<open>Read\<close> into the
  32 KiB buffer adds at most 32768 to a counter that is at most \<open>maxFileSizeByte\<close>, so
  it cannot wrap and is an \<open>int\<close> here.
\<close>

definition size_exceeded :: "string \<Rightarrow> error" where
  "size_exceeded filename =
     errorString (''file '' @ [quote] @ filename @ [quote] @
                  '' exceeds the maximum allowed size of '' @ Sprintf_d maxFileSizeMB @ ''MB'')"

fun producer :: "string \<Rightarrow> reader \<Rightarrow> int \<Rightarrow> pipe \<Rightarrow> pipe \<times> reader" where
  "producer filename [] currentSize pw = (pw_Close pw, [])"
| "producer filename ((chunk, readErr) # rest) currentSize pw =
     (let n = int (length chunk);
          currentSize' = (if n > 0 then currentSize + n else currentSize)
      in if n > 0 \<and> currentSize' > maxFileSizeByte
         then (pw_Close (pw_CloseWithError (size_exceeded filename) pw), rest)
         else (case (if n > 0 then pw_Write chunk pw else Inr pw) of
                 Inl writeErr \<Rightarrow> (pw_Close (pw_CloseWithError writeErr pw), rest)
               | Inr pw' \<Rightarrow>
                   (case readErr of
                      Some e \<Rightarrow>
                        if e = io_EOF then (pw_Close pw', rest)
                        else (pw_Close (pw_CloseWithError e pw'), rest)
                    | None \<Rightarrow> producer filename rest currentSize' pw')))"

section \<open>The object store\<close>

text \<open>
  Modelled from the spec: the storage backend behind \<open>s3Client\<close> and \<open>s3Uploader\<close> (the AWS
  SDK, an external collaborator), after section 4.1: a bucket
  is a sequence of keyed objects, each with its content, the time the backend assigned
  and a content type. A put of a complete stream creates or replaces the object under
  the key, a put of an aborted stream creates nothing, a get of an absent key fails
  with \<open>NoSuchKey\<close>, a delete of an absent key succeeds. Every call takes the failure
  the backend has at that moment (\<open>None\<close> when it is available).
\<close>

record stored_object =
  content :: "byte list"
  modified :: nat
  content_type :: string

record backend =
  objects :: "(string \<times> stored_object) list"
  clock :: nat

record s3_Object =
  Key :: "string option"
  LastModified :: "nat option"

record GetObjectOutput =
  Body :: reader
  ContentType :: "string option"
  ContentLength :: "int option"

definition s3_ErrCodeNoSuchKey :: string where
  "s3_ErrCodeNoSuchKey = ''NoSuchKey''"

definition s3_ListObjectsV2 :: "backend \<Rightarrow> error option \<Rightarrow> error + s3_Object list" where
  "s3_ListObjectsV2 bk fault =
     (case fault of
        Some err \<Rightarrow> Inl err
      | None \<Rightarrow> Inr (map (\<lambda>(k, ob). \<lparr>Key = Some k, LastModified = Some (modified ob)\<rparr>)
                         (objects bk)))"

definition s3_GetObject :: "backend \<Rightarrow> error option \<Rightarrow> string \<Rightarrow> error + GetObjectOutput" where
  "s3_GetObject bk fault k =
     (case fault of
        Some err \<Rightarrow> Inl err
      | None \<Rightarrow>
          (case map_of (objects bk) k of
             None \<Rightarrow> Inl (awserr s3_ErrCodeNoSuchKey ''The specified key does not exist.'' None)
           | Some ob \<Rightarrow> Inr \<lparr>Body = [(content ob, Some io_EOF)],
                             ContentType = Some (content_type ob),
                             ContentLength = Some (int (length (content ob)))\<rparr>))"

definition s3_DeleteObject :: "backend \<Rightarrow> error option \<Rightarrow> string \<Rightarrow> error option \<times> backend" where
  "s3_DeleteObject bk fault k =
     (case fault of
        Some err \<Rightarrow> (Some err, bk)
      | None \<Rightarrow> (None, bk\<lparr>objects := AList.delete k (objects bk)\<rparr>))"

definition put_object :: "backend \<Rightarrow> string \<Rightarrow> byte list \<Rightarrow> backend" where
  "put_object bk k bytes =
     bk\<lparr>objects := AList.update k
                      \<lparr>content = bytes, modified = clock bk,
                       content_type = ''binary/octet-stream''\<rparr> (objects bk),
        clock := Suc (clock bk)\<rparr>"

text \<open>
  Modelled from the spec: \<open>s3Uploader.Upload\<close> reading its body from the read end of the
  pipe (sections 4.1 and 4.2). It sees the bytes written and then the error the write
  side was closed with; while the write side is open it waits, so a pipe that is never
  closed gives \<open>UploadBlocks\<close>. An unavailable backend fails the call, a body that ends in
  an error other than \<open>io.EOF\<close> fails it with an error that carries the cause (the
  SDK's \<open>ReadRequestBody\<close>), and in both cases no object is stored.
\<close>

datatype upload_result = UploadOK | UploadErr error | UploadBlocks

definition aborted_by :: "error \<Rightarrow> error" where
  "aborted_by e = awserr ''ReadRequestBody'' ''read upload data failed'' (Some e)"

definition s3Uploader_Upload ::
  "backend \<Rightarrow> error option \<Rightarrow> string \<Rightarrow> pipe \<Rightarrow> upload_result \<times> backend" where
  "s3Uploader_Upload bk fault k pr =
     (case werr pr of
        None \<Rightarrow> (UploadBlocks, bk)
      | Some e \<Rightarrow>
          (case fault of
             Some err \<Rightarrow> (UploadErr err, bk)
           | None \<Rightarrow>
               if e = io_EOF then (UploadOK, put_object bk k (data pr))
               else (UploadErr (aborted_by e), bk)))"

section \<open>The handlers\<close>

text \<open>
  What a handler leaves on the wire: a JSON body with its status, an \<open>echo.HTTPError\<close>,
  an empty response, or a streamed body with its headers. The list of a JSON body is
  the Go slice handed to \<open>c.JSON\<close> (the nil slice when nothing was appended to it).
  \<open>Panicked\<close> is a nil dereference inside the handler, \<open>Blocked\<close> a handler that never
  returns.
\<close>

datatype response =
    JSON_files nat "FileInfo list"
  | JSON_uploaded nat string "string list"
  | HTTPError nat string
  | NoContent nat
  | Streamed nat "(string \<times> string) list" "byte list"
  | Panicked
  | Blocked

fun status :: "response \<Rightarrow> nat option" where
  "status (JSON_files c _) = Some c"
| "status (JSON_uploaded c _ _) = Some c"
| "status (HTTPError c _) = Some c"
| "status (NoContent c) = Some c"
| "status (Streamed c _ _) = Some c"
| "status Panicked = None"
| "status Blocked = None"

text \<open>The loop of \<open>listFilesHandler\<close> (lines 157 to 166); \<open>None\<close> is the nil dereference.\<close>

fun list_loop :: "s3_Object list \<Rightarrow> FileInfo list \<Rightarrow> FileInfo list option" where
  "list_loop [] files = Some files"
| "list_loop (obj # rest) files =
     (case Key obj of
        None \<Rightarrow> list_loop rest files
      | Some k \<Rightarrow>
          if \<not> strings_HasSuffix k ''/'' then
            (case LastModified obj of
               None \<Rightarrow> None
             | Some t \<Rightarrow> list_loop rest
                          (files @ [\<lparr>Filename = k, Path = ''/files/'' @ k, UploadedAt = t\<rparr>]))
          else list_loop rest files)"

definition listFilesHandler :: "backend \<Rightarrow> error option \<Rightarrow> response" where
  "listFilesHandler s3Client fault =
     (case s3_ListObjectsV2 s3Client fault of
        Inl err \<Rightarrow> HTTPError 500 ''Failed to list files from storage.''
      | Inr result \<Rightarrow>
          (case list_loop result [] of
             None \<Rightarrow> Panicked
           | Some files \<Rightarrow> JSON_files 200 files))"

text \<open>
  One part of the multipart form as \<open>uploadFilesHandler\<close> meets it: the
  \<open>multipart.FileHeader\<close> (its \<open>Filename\<close> and what \<open>Open()\<close> returns), together with what
  the environment supplies while the part is handled: the string of the identifier
  that \<open>uuid.New()\<close> draws and the failure of the backend, if any.
\<close>

record file_part =
  fh_Filename :: string
  fh_Open :: "error + reader"
  uuid_New :: string
  put_fault :: "error option"

definition uniqueFilename :: "string \<Rightarrow> string \<Rightarrow> string" where
  "uniqueFilename uuid filename = uuid @ ''_'' @ filepath_Base filename"

definition size_marker :: string where
  "size_marker = ''exceeds the maximum allowed size of '' @ Sprintf_d maxFileSizeMB @ ''MB''"

text \<open>The loop of \<open>uploadFilesHandler\<close> (lines 198 to 259).\<close>

fun upload_loop :: "backend \<Rightarrow> string list \<Rightarrow> file_part list \<Rightarrow> response \<times> backend" where
  "upload_loop bk uploadedFilenames [] =
     (JSON_uploaded 201 ''Files uploaded successfully'' uploadedFilenames, bk)"
| "upload_loop bk uploadedFilenames (fileHeader # rest) =
     (if fh_Filename fileHeader = [] then upload_loop bk uploadedFilenames rest
      else
        (case fh_Open fileHeader of
           Inl err \<Rightarrow>
             (HTTPError 500 (''Could not open file '' @ [quote] @ fh_Filename fileHeader @ [quote]),
              bk)
         | Inr file \<Rightarrow>
             (let key = uniqueFilename (uuid_New fileHeader) (fh_Filename fileHeader);
                  pr = fst (producer (fh_Filename fileHeader) file 0 io_Pipe)
              in case s3Uploader_Upload bk (put_fault fileHeader) key pr of
                   (UploadErr err, bk') \<Rightarrow>
                     if strings_Contains (Error err) size_marker
                     then (HTTPError 413 (Error err), bk')
                     else (HTTPError 500
                             (''Could not upload file '' @ [quote] @ fh_Filename fileHeader @ [quote]),
                           bk')
                 | (UploadOK, bk') \<Rightarrow> upload_loop bk' (uploadedFilenames @ [key]) rest
                 | (UploadBlocks, bk') \<Rightarrow> (Blocked, bk'))))"

text \<open>
  \<open>uploadFilesHandler\<close>: the argument is what \<open>c.MultipartForm()\<close> returned, the form
  being the map \<open>form.File\<close> from field names to file headers; a field that is absent
  gives the empty slice.
\<close>

type_synonym form = "(string \<times> file_part list) list"

definition form_File :: "form \<Rightarrow> string \<Rightarrow> file_part list" where
  "form_File f name = (case map_of f name of None \<Rightarrow> [] | Some fs \<Rightarrow> fs)"

definition uploadFilesHandler :: "backend \<Rightarrow> error + form \<Rightarrow> response \<times> backend" where
  "uploadFilesHandler s3Client parsed =
     (case parsed of
        Inl err \<Rightarrow> (HTTPError 400 (''Failed to parse multipart form: '' @ Error err), s3Client)
      | Inr f \<Rightarrow>
          (let files = form_File f ''files''
           in if length files = 0
              then (HTTPError 400 ''No files provided for upload.'', s3Client)
              else upload_loop s3Client [] files))"

text \<open>
  What \<open>c.MultipartForm()\<close> makes of a body that parses, after \<open>ReadForm\<close> of Go's
  \<open>mime/multipart\<close>: the body is its parts in order, each with the name of its field; a
  part whose filename is empty is a form value and not a file, so \<open>form.File\<close> holds, under
  each field name, the headers of the parts of that name whose filename is not empty.
\<close>

definition readForm :: "(string \<times> file_part) list \<Rightarrow> form" where
  "readForm parts =
     (let files = filter (\<lambda>np. fh_Filename (snd np) \<noteq> []) parts
      in map (\<lambda>name. (name, map snd (filter (\<lambda>np. fst np = name) files)))
             (remdups (map fst files)))"

text \<open>
  \<open>io.Copy\<close> from a reader to the response: the bytes delivered, and the error that cut
  the copy short, if any.
\<close>

definition io_Copy :: "reader \<Rightarrow> byte list \<times> error option" where
  "io_Copy src = (delivered src, if read_end src = io_EOF then None else Some (read_end src))"

definition aws_StringValue :: "string option \<Rightarrow> string" where
  "aws_StringValue v = (case v of None \<Rightarrow> [] | Some s \<Rightarrow> s)"

definition aws_Int64Value :: "int option \<Rightarrow> int" where
  "aws_Int64Value v = (case v of None \<Rightarrow> 0 | Some i \<Rightarrow> i)"

definition getFileHandler :: "backend \<Rightarrow> error option \<Rightarrow> string \<Rightarrow> response" where
  "getFileHandler s3Client fault filename =
     (case s3_GetObject s3Client fault filename of
        Inl err \<Rightarrow>
          (case err of
             awserr code msg orig \<Rightarrow>
               if code = s3_ErrCodeNoSuchKey
               then HTTPError 404 (''File '' @ [quote] @ filename @ [quote] @ '' not found.'')
               else HTTPError 500 ''Failed to retrieve file.''
           | _ \<Rightarrow> HTTPError 500 ''Failed to retrieve file.'')
      | Inr result \<Rightarrow>
          Streamed 200
            [(''Content-Type'', aws_StringValue (ContentType result)),
             (''Content-Length'', Sprintf_d (aws_Int64Value (ContentLength result))),
             (''Content-Disposition'',
              ''attachment; filename='' @ [dquote] @ filename @ [dquote])]
            (fst (io_Copy (Body result))))"

definition deleteFileHandler :: "backend \<Rightarrow> error option \<Rightarrow> string \<Rightarrow> response \<times> backend" where
  "deleteFileHandler s3Client fault filename =
     (case s3_DeleteObject s3Client fault filename of
        (Some err, bk') \<Rightarrow>
          (HTTPError 500 (''Could not delete file '' @ [quote] @ filename @ [quote] @ ''.''), bk')
      | (None, bk') \<Rightarrow> (NoContent 204, bk'))"


section \<open>Notions used to state the properties\<close>

text \<open>
  The key an upload mints for a part, the reader its \<open>Open()\<close> gave, and the parts whose
  upload goes through: \<open>completes\<close> is a file that opens, is read to \<open>io.EOF\<close> within the
  ceiling and meets an available backend; \<open>passes\<close> also covers the part that is
  skipped for its empty filename. \<open>persisted\<close> is the bucket after the parts of a
  list that are not skipped have been put, \<open>minted\<close> their keys in order.
\<close>

definition session_key :: "file_part \<Rightarrow> string" where
  "session_key f = uniqueFilename (uuid_New f) (fh_Filename f)"

definition opened :: "file_part \<Rightarrow> reader" where
  "opened f = (case fh_Open f of Inl err \<Rightarrow> [] | Inr rd \<Rightarrow> rd)"

definition completes :: "file_part \<Rightarrow> bool" where
  "completes f =
     (case fh_Open f of
        Inl err \<Rightarrow> False
      | Inr rd \<Rightarrow> int (length (delivered rd)) \<le> maxFileSizeByte \<and> read_end rd = io_EOF \<and>
                 put_fault f = None)"

definition passes :: "file_part \<Rightarrow> bool" where
  "passes f = (fh_Filename f = [] \<or> completes f)"

fun persisted :: "backend \<Rightarrow> file_part list \<Rightarrow> backend" where
  "persisted bk [] = bk"
| "persisted bk (f # fs) =
     (if fh_Filename f = [] then persisted bk fs
      else persisted (put_object bk (session_key f) (delivered (opened f))) fs)"

definition minted :: "file_part list \<Rightarrow> string list" where
  "minted fs = map session_key (filter (\<lambda>f. fh_Filename f \<noteq> []) fs)"

text \<open>
  The string of a UUID as \<open>uuid.New().String()\<close> prints it: 36 characters, lower-case
  hexadecimal digits in groups of 8, 4, 4, 4 and 12 with a hyphen between the groups.
\<close>

definition is_hex :: "char \<Rightarrow> bool" where
  "is_hex c = (c \<in> set ''0123456789abcdef'')"

definition uuid_String_format :: "string \<Rightarrow> bool" where
  "uuid_String_format u =
     (length u = 36 \<and>
      list_all is_hex (take 8 u) \<and> take 1 (drop 8 u) = ''-'' \<and>
      list_all is_hex (take 4 (drop 9 u)) \<and> take 1 (drop 13 u) = ''-'' \<and>
      list_all is_hex (take 4 (drop 14 u)) \<and> take 1 (drop 18 u) = ''-'' \<and>
      list_all is_hex (take 4 (drop 19 u)) \<and> take 1 (drop 23 u) = ''-'' \<and>
      list_all is_hex (drop 24 u))"

section \<open>Sample inputs\<close>

text \<open>
  Concrete inputs at which the theorems below are instantiated: an empty bucket, and a
  file of 1601 full reads of the 32 KiB buffer, 32768 bytes more than the ceiling.
\<close>

definition empty_bucket :: backend where
  "empty_bucket = \<lparr>objects = [], clock = 0\<rparr>"

definition oversized :: reader where
  "oversized = replicate 1601 (replicate 32768 0, None)"

definition oversized_part :: file_part where
  "oversized_part =
     \<lparr>fh_Filename = ''big.bin'', fh_Open = Inr oversized,
      uuid_New = ''123e4567-e89b-42d3-a456-426614174000'', put_fault = None\<rparr>"

text \<open>
  Parts of a multipart form: a file of four bytes read in two calls, a file of one byte,
  a file whose second read fails, and a file that meets an unreachable backend.
\<close>

definition small_part :: file_part where
  "small_part =
     \<lparr>fh_Filename = ''a.txt'', fh_Open = Inr [([1, 2, 3], None), ([4], Some io_EOF)],
      uuid_New = ''00000000-0000-4000-8000-000000000001'', put_fault = None\<rparr>"

definition later_part :: file_part where
  "later_part =
     \<lparr>fh_Filename = ''c.txt'', fh_Open = Inr [([9], Some io_EOF)],
      uuid_New = ''00000000-0000-4000-8000-000000000003'', put_fault = None\<rparr>"

definition broken_part :: file_part where
  "broken_part =
     \<lparr>fh_Filename = ''b.txt'',
      fh_Open = Inr [([1, 2], None), ([], Some (errorString ''unexpected EOF''))],
      uuid_New = ''00000000-0000-4000-8000-000000000002'', put_fault = None\<rparr>"

definition refused_part :: file_part where
  "refused_part =
     \<lparr>fh_Filename = ''a.txt'', fh_Open = Inr [([1, 2, 3], Some io_EOF)],
      uuid_New = ''00000000-0000-4000-8000-000000000001'',
      put_fault = Some (awserr ''RequestError'' ''send request failed'' None)\<rparr>"

text \<open>A second file named as \<open>small_part\<close> is, with other bytes and another identifier.\<close>

definition same_name_part :: file_part where
  "same_name_part =
     \<lparr>fh_Filename = ''a.txt'', fh_Open = Inr [([7, 8], Some io_EOF)],
      uuid_New = ''00000000-0000-4000-8000-000000000002'', put_fault = None\<rparr>"

text \<open>A bucket that holds one object, and a part without a filename.\<close>

definition sample_bucket :: backend where
  "sample_bucket =
     \<lparr>objects = [(''k1'', \<lparr>content = [1, 2, 3], modified = 7, content_type = ''text/plain''\<rparr>)],
      clock = 8\<rparr>"

definition unnamed_part :: file_part where
  "unnamed_part =
     \<lparr>fh_Filename = [], fh_Open = Inr [([5], Some io_EOF)],
      uuid_New = ''00000000-0000-4000-8000-000000000004'', put_fault = None\<rparr>"

section \<open>The producer\<close>

lemma size_marker_eq: "size_marker = ''exceeds the maximum allowed size of 50MB''"
  by (simp add: size_marker_def Sprintf_d_def maxFileSizeMB_def)

lemma maxFileSizeByte_eq: "maxFileSizeByte = 52428800"
  by (simp add: maxFileSizeByte_def maxFileSizeMB_def)

lemma producer_within:
  "rerr pw = None \<Longrightarrow> werr pw = None \<Longrightarrow>
   currentSize + int (length (delivered rd)) \<le> maxFileSizeByte \<Longrightarrow>
   fst (producer fn rd currentSize pw) =
     pw\<lparr>data := data pw @ delivered rd, werr := Some (read_end rd)\<rparr>"
proof (induction rd arbitrary: currentSize pw)
  case Nil
  then show ?case by (simp add: pw_Close_def pw_CloseWithError_def)
next
  case (Cons r rd)
  obtain chunk readErr where r: "r = (chunk, readErr)" by (cases r)
  show ?case
  proof (cases readErr)
    case None
    with Cons.prems r
    have le: "currentSize + int (length chunk) + int (length (delivered rd)) \<le> maxFileSizeByte"
      by simp
    show ?thesis
    proof (cases "chunk = []")
      case True
      with Cons.IH [of pw currentSize] Cons.prems r None show ?thesis by simp
    next
      case False
      let ?pw = "pw\<lparr>data := data pw @ chunk\<rparr>"
      have "fst (producer fn rd (currentSize + int (length chunk)) ?pw) =
              ?pw\<lparr>data := data ?pw @ delivered rd, werr := Some (read_end rd)\<rparr>"
        using Cons.prems le by (intro Cons.IH) simp_all
      with False Cons.prems r None le show ?thesis
        by (simp add: pw_Write_def Let_def)
    qed
  next
    case (Some e)
    with Cons.prems r show ?thesis
      by (simp add: pw_Write_def pw_Close_def pw_CloseWithError_def Let_def)
  qed
qed

lemma producer_exceeds:
  "rerr pw = None \<Longrightarrow> werr pw = None \<Longrightarrow> \<forall>r\<in>set pre. snd r = None \<Longrightarrow>
   currentSize + int (length (concat (map fst pre))) \<le> maxFileSizeByte \<Longrightarrow>
   maxFileSizeByte < currentSize + int (length (concat (map fst pre))) + int (length chunk) \<Longrightarrow>
   producer fn (pre @ (chunk, e) # post) currentSize pw =
     (pw\<lparr>data := data pw @ concat (map fst pre), werr := Some (size_exceeded fn)\<rparr>, post)"
proof (induction pre arbitrary: currentSize pw)
  case Nil
  then have "chunk \<noteq> []" by auto
  with Nil show ?case by (simp add: pw_Close_def pw_CloseWithError_def Let_def)
next
  case (Cons r pre)
  obtain c where r: "r = (c, None)" using Cons.prems(3) by (cases r) auto
  show ?case
  proof (cases "c = []")
    case True
    with Cons.IH [of pw currentSize] Cons.prems r show ?thesis by simp
  next
    case False
    let ?pw = "pw\<lparr>data := data pw @ c\<rparr>"
    have "producer fn (pre @ (chunk, e) # post) (currentSize + int (length c)) ?pw =
            (?pw\<lparr>data := data ?pw @ concat (map fst pre), werr := Some (size_exceeded fn)\<rparr>, post)"
      using Cons.prems r by (intro Cons.IH) (simp_all add: algebra_simps)
    moreover have "currentSize + int (length c) \<le> maxFileSizeByte"
      using Cons.prems(4) r by simp
    ultimately show ?thesis using False Cons.prems r
      by (simp add: pw_Write_def Let_def)
  qed
qed

lemma exceeds_split:
  "maxFileSizeByte < currentSize + int (length (delivered rd)) \<Longrightarrow>
   currentSize \<le> maxFileSizeByte \<Longrightarrow>
   \<exists>pre chunk e post. rd = pre @ (chunk, e) # post \<and> (\<forall>r\<in>set pre. snd r = None) \<and>
      currentSize + int (length (concat (map fst pre))) \<le> maxFileSizeByte \<and>
      maxFileSizeByte < currentSize + int (length (concat (map fst pre))) + int (length chunk)"
proof (induction rd arbitrary: currentSize)
  case Nil
  then show ?case by simp
next
  case (Cons r rd)
  obtain c readErr where r: "r = (c, readErr)" by (cases r)
  show ?case
  proof (cases "maxFileSizeByte < currentSize + int (length c)")
    case True
    with Cons.prems r have "r # rd = [] @ (c, readErr) # rd \<and> (\<forall>r\<in>set []. snd r = None) \<and>
      currentSize + int (length (concat (map fst ([]::reader)))) \<le> maxFileSizeByte \<and>
      maxFileSizeByte < currentSize + int (length (concat (map fst ([]::reader)))) + int (length c)"
      by simp
    then show ?thesis by blast
  next
    case False
    with Cons.prems r obtain none: "readErr = None"
      by (cases readErr) auto
    with Cons.prems r False
    have "maxFileSizeByte < (currentSize + int (length c)) + int (length (delivered rd))"
      and "currentSize + int (length c) \<le> maxFileSizeByte" by simp_all
    from Cons.IH [OF this] obtain pre chunk e post where
      "rd = pre @ (chunk, e) # post" "\<forall>r\<in>set pre. snd r = None"
      "currentSize + int (length c) + int (length (concat (map fst pre))) \<le> maxFileSizeByte"
      "maxFileSizeByte < currentSize + int (length c) + int (length (concat (map fst pre))) + int (length chunk)"
      by blast
    with r none have "r # rd = (r # pre) @ (chunk, e) # post \<and> (\<forall>r\<in>set (r # pre). snd r = None) \<and>
      currentSize + int (length (concat (map fst (r # pre)))) \<le> maxFileSizeByte \<and>
      maxFileSizeByte < currentSize + int (length (concat (map fst (r # pre)))) + int (length chunk)"
      by (simp add: algebra_simps)
    then show ?thesis by blast
  qed
qed

lemma delivered_replicate: "delivered (replicate n (c, None)) = concat (replicate n c)"
  by (induction n) auto

lemma length_concat_replicate: "length (concat (replicate n c)) = n * length c"
  by (induction n) auto

lemma read_end_replicate: "read_end (replicate n (c, None)) = io_EOF"
  by (induction n) auto

lemma producer_completes:
  assumes "int (length (delivered rd)) \<le> maxFileSizeByte"
  shows "fst (producer fn rd 0 io_Pipe) =
           \<lparr>data = delivered rd, rerr = None, werr = Some (read_end rd)\<rparr>"
  using producer_within [of io_Pipe 0 rd fn] assms by (simp add: io_Pipe_def)

lemma producer_aborts:
  assumes "maxFileSizeByte < int (length (delivered rd))"
  shows "\<exists>pre chunk e post. rd = pre @ (chunk, e) # post \<and> (\<forall>r\<in>set pre. snd r = None) \<and>
           int (length (concat (map fst pre))) \<le> maxFileSizeByte \<and>
           maxFileSizeByte < int (length (concat (map fst pre))) + int (length chunk) \<and>
           producer fn rd 0 io_Pipe =
             (\<lparr>data = concat (map fst pre), rerr = None, werr = Some (size_exceeded fn)\<rparr>, post)"
proof -
  have "(0::int) \<le> maxFileSizeByte" by (simp add: maxFileSizeByte_eq)
  with exceeds_split [of 0 rd] assms obtain pre chunk e post where
    d: "rd = pre @ (chunk, e) # post" "\<forall>r\<in>set pre. snd r = None"
       "int (length (concat (map fst pre))) \<le> maxFileSizeByte"
       "maxFileSizeByte < int (length (concat (map fst pre))) + int (length chunk)"
    by auto
  from producer_exceeds [of io_Pipe pre 0 chunk fn e post] d
  have "producer fn rd 0 io_Pipe =
          (\<lparr>data = concat (map fst pre), rerr = None, werr = Some (size_exceeded fn)\<rparr>, post)"
    by (simp add: io_Pipe_def)
  with d show ?thesis by blast
qed

lemma size_exceeded_neq_EOF: "size_exceeded fn \<noteq> io_EOF"
  by (simp add: size_exceeded_def)

lemma size_exceeded_marked: "strings_Contains (Error (aborted_by (size_exceeded fn))) size_marker"
proof -
  have "Error (aborted_by (size_exceeded fn)) =
          (''ReadRequestBody: read upload data failed'' @ [CHR 0x0A] @ ''caused by: file '' @
             [quote] @ fn @ [quote] @ '' '') @ size_marker @ []"
    by (simp add: aborted_by_def size_exceeded_def size_marker_def)
  then show ?thesis
    unfolding strings_Contains_def by (metis sublist_appendI)
qed

lemma upload_step_completes:
  assumes "fh_Filename f \<noteq> []" "completes f"
  shows "upload_loop bk acc (f # rest) =
           upload_loop (put_object bk (session_key f) (delivered (opened f)))
                       (acc @ [session_key f]) rest"
proof -
  from assms(2) obtain rd where rd: "fh_Open f = Inr rd"
    "int (length (delivered rd)) \<le> maxFileSizeByte" "read_end rd = io_EOF" "put_fault f = None"
    by (auto simp: completes_def split: sum.splits)
  from producer_completes [OF rd(2)] rd(3)
  have "fst (producer (fh_Filename f) rd 0 io_Pipe) =
          \<lparr>data = delivered rd, rerr = None, werr = Some io_EOF\<rparr>" by simp
  with assms(1) rd show ?thesis
    by (simp add: s3Uploader_Upload_def session_key_def opened_def Let_def)
qed

lemma upload_step_exceeds:
  assumes "fh_Filename f \<noteq> []" "fh_Open f = Inr rd"
    "maxFileSizeByte < int (length (delivered rd))" "put_fault f = None"
  shows "upload_loop bk acc (f # rest) =
           (HTTPError 413 (Error (aborted_by (size_exceeded (fh_Filename f)))), bk)"
proof -
  from producer_aborts [OF assms(3), of "fh_Filename f"] obtain written where
    "fst (producer (fh_Filename f) rd 0 io_Pipe) =
       \<lparr>data = written, rerr = None, werr = Some (size_exceeded (fh_Filename f))\<rparr>"
    by force
  with assms size_exceeded_marked [of "fh_Filename f"] show ?thesis
    by (simp add: s3Uploader_Upload_def size_exceeded_neq_EOF aborted_by_def Let_def)
qed

lemma upload_loop_passes:
  "\<forall>f\<in>set pre. passes f \<Longrightarrow>
   upload_loop bk acc (pre @ rest) = upload_loop (persisted bk pre) (acc @ minted pre) rest"
proof (induction pre arbitrary: bk acc)
  case Nil
  then show ?case by (simp add: minted_def)
next
  case (Cons f pre)
  show ?case
  proof (cases "fh_Filename f = []")
    case True
    with Cons show ?thesis by (simp add: minted_def)
  next
    case False
    with Cons.prems have "completes f" by (simp add: passes_def)
    from upload_step_completes [OF False this, of bk acc "pre @ rest"] Cons False
    show ?thesis by (simp add: minted_def)
  qed
qed

lemma put_object_keys:
  "fst ` set (objects (put_object bk k b)) = insert k (fst ` set (objects bk))"
  by (simp add: put_object_def dom_update)

lemma persisted_keeps: "k \<in> fst ` set (objects bk) \<Longrightarrow> k \<in> fst ` set (objects (persisted bk fs))"
  by (induction fs arbitrary: bk) (simp_all add: put_object_keys)

lemma persisted_has:
  "f \<in> set fs \<Longrightarrow> fh_Filename f \<noteq> [] \<Longrightarrow> session_key f \<in> fst ` set (objects (persisted bk fs))"
proof (induction fs arbitrary: bk)
  case Nil
  then show ?case by simp
next
  case (Cons g fs)
  show ?case
  proof (cases "f = g")
    case True
    with Cons.prems show ?thesis
      by (simp add: persisted_keeps put_object_keys)
  next
    case False
    with Cons show ?thesis by simp
  qed
qed

section \<open>Upload followed by get\<close>

text \<open>
  C1. A part with a non-empty filename whose file opens, is read to \<open>io.EOF\<close> and holds at
  most \<open>maxFileSizeByte\<close> bytes (50 MiB, the bound included), uploaded while the backend
  is available: the producer writes the file's bytes into the pipe unchanged and
  closes it normally, the handler answers 201 with the minted key, and a get of that
  key answers 200 with exactly the bytes of the file.
\<close>

theorem upload_then_get_roundtrip:
  assumes "fh_Filename f \<noteq> []" "fh_Open f = Inr rd"
    "int (length (delivered rd)) \<le> maxFileSizeByte" "read_end rd = io_EOF" "put_fault f = None"
  shows "fst (producer (fh_Filename f) rd 0 io_Pipe) =
           \<lparr>data = delivered rd, rerr = None, werr = Some io_EOF\<rparr> \<and>
         fst (uploadFilesHandler bk (Inr [(''files'', [f])])) =
           JSON_uploaded 201 ''Files uploaded successfully''
             [uniqueFilename (uuid_New f) (fh_Filename f)] \<and>
         getFileHandler (snd (uploadFilesHandler bk (Inr [(''files'', [f])]))) None
             (uniqueFilename (uuid_New f) (fh_Filename f)) =
           Streamed 200
             [(''Content-Type'', ''binary/octet-stream''),
              (''Content-Length'', Sprintf_d (int (length (delivered rd)))),
              (''Content-Disposition'',
               ''attachment; filename='' @ [dquote] @
               uniqueFilename (uuid_New f) (fh_Filename f) @ [dquote])]
             (delivered rd)"
proof -
  have c: "completes f" using assms by (simp add: completes_def)
  have p: "fst (producer (fh_Filename f) rd 0 io_Pipe) =
             \<lparr>data = delivered rd, rerr = None, werr = Some io_EOF\<rparr>"
    using producer_completes [OF assms(3), of "fh_Filename f"] assms(4) by simp
  have u: "uploadFilesHandler bk (Inr [(''files'', [f])]) =
             (JSON_uploaded 201 ''Files uploaded successfully'' [session_key f],
              put_object bk (session_key f) (delivered rd))"
    using upload_step_completes [OF assms(1) c, of bk "[]" "[]"] assms(2)
    by (simp add: uploadFilesHandler_def form_File_def opened_def)
  have g: "map_of (objects (put_object bk (session_key f) (delivered rd))) (session_key f) =
             Some \<lparr>content = delivered rd, modified = clock bk,
                   content_type = ''binary/octet-stream''\<rparr>"
    by (simp add: put_object_def update_conv')
  have "getFileHandler (put_object bk (session_key f) (delivered rd)) None (session_key f) =
           Streamed 200
             [(''Content-Type'', ''binary/octet-stream''),
              (''Content-Length'', Sprintf_d (int (length (delivered rd)))),
              (''Content-Disposition'',
               ''attachment; filename='' @ [dquote] @ session_key f @ [dquote])]
             (delivered rd)"
    unfolding getFileHandler_def s3_GetObject_def
    by (simp add: g io_Copy_def aws_StringValue_def aws_Int64Value_def)
  with p u show ?thesis by (simp add: session_key_def)
qed

theorem upload_then_get_roundtrip_witness:
  "''a.txt'' \<noteq> [] \<and>
   int (length (delivered (replicate 1600 (replicate 32768 (0::byte), None)))) = maxFileSizeByte \<and>
   read_end (replicate 1600 (replicate 32768 (0::byte), None)) = io_EOF \<and>
   fst (uploadFilesHandler \<lparr>objects = [], clock = 0\<rparr>
         (Inr [(''files'',
                [\<lparr>fh_Filename = ''a.txt'',
                  fh_Open = Inr (replicate 1600 (replicate 32768 0, None)),
                  uuid_New = ''123e4567-e89b-42d3-a456-426614174000'',
                  put_fault = None\<rparr>])])) =
     JSON_uploaded 201 ''Files uploaded successfully''
       [''123e4567-e89b-42d3-a456-426614174000_a.txt''] \<and>
   getFileHandler
     (snd (uploadFilesHandler \<lparr>objects = [], clock = 0\<rparr>
         (Inr [(''files'',
                [\<lparr>fh_Filename = ''a.txt'',
                  fh_Open = Inr (replicate 1600 (replicate 32768 0, None)),
                  uuid_New = ''123e4567-e89b-42d3-a456-426614174000'',
                  put_fault = None\<rparr>])])))
     None ''123e4567-e89b-42d3-a456-426614174000_a.txt'' =
   Streamed 200
     [(''Content-Type'', ''binary/octet-stream''),
      (''Content-Length'', ''52428800''),
      (''Content-Disposition'',
       ''attachment; filename='' @ [dquote] @ ''123e4567-e89b-42d3-a456-426614174000_a.txt'' @
       [dquote])]
     (concat (replicate 1600 (replicate 32768 0)))"
proof -
  have k: "uniqueFilename ''123e4567-e89b-42d3-a456-426614174000'' ''a.txt'' =
             ''123e4567-e89b-42d3-a456-426614174000_a.txt''"
    by (simp add: uniqueFilename_def filepath_Base_def IsPathSeparator_def)
  have n: "Sprintf_d 52428800 = ''52428800''"
    by (simp add: Sprintf_d_def)
  show ?thesis
    using upload_then_get_roundtrip
      [of "\<lparr>fh_Filename = ''a.txt'',
            fh_Open = Inr (replicate 1600 (replicate 32768 0, None)),
            uuid_New = ''123e4567-e89b-42d3-a456-426614174000'',
            put_fault = None\<rparr>"
          "replicate 1600 (replicate 32768 0, None)" "\<lparr>objects = [], clock = 0\<rparr>"]
    by (simp add: k n delivered_replicate length_concat_replicate read_end_replicate
        maxFileSizeByte_eq)
qed

section \<open>A file above the ceiling\<close>

lemma upload_step_fails:
  assumes "fh_Filename f \<noteq> []" "fh_Open f = Inr rd"
    "maxFileSizeByte < int (length (delivered rd))"
  shows "\<exists>code msg. (\<forall>acc rest. upload_loop bk acc (f # rest) = (HTTPError code msg, bk)) \<and>
           (put_fault f = None \<longrightarrow> code = 413)"
proof (cases "put_fault f")
  case None
  show ?thesis
  proof (intro exI conjI)
    show "\<forall>acc rest. upload_loop bk acc (f # rest) =
            (HTTPError 413 (Error (aborted_by (size_exceeded (fh_Filename f)))), bk)"
      using upload_step_exceeds [OF assms None, of bk] by (intro allI)
    show "put_fault f = None \<longrightarrow> (413::nat) = 413" by simp
  qed
next
  case (Some err)
  from producer_aborts [OF assms(3), of "fh_Filename f"] obtain written where
    w: "fst (producer (fh_Filename f) rd 0 io_Pipe) =
       \<lparr>data = written, rerr = None, werr = Some (size_exceeded (fh_Filename f))\<rparr>"
    by force
  show ?thesis
  proof (cases "strings_Contains (Error err) size_marker")
    case True
    with w assms Some
    have a: "\<forall>acc rest. upload_loop bk acc (f # rest) = (HTTPError 413 (Error err), bk)"
      by (simp add: s3Uploader_Upload_def Let_def)
    show ?thesis
    proof (intro exI conjI)
      show "\<forall>acc rest. upload_loop bk acc (f # rest) = (HTTPError 413 (Error err), bk)"
        by (rule a)
      show "put_fault f = None \<longrightarrow> (413::nat) = 413" by simp
    qed
  next
    case False
    with w assms Some
    have a: "\<forall>acc rest. upload_loop bk acc (f # rest) =
            (HTTPError 500 (''Could not upload file '' @ [quote] @ fh_Filename f @ [quote]), bk)"
      by (simp add: s3Uploader_Upload_def Let_def)
    show ?thesis
    proof (intro exI conjI)
      show "\<forall>acc rest. upload_loop bk acc (f # rest) =
            (HTTPError 500 (''Could not upload file '' @ [quote] @ fh_Filename f @ [quote]), bk)"
        by (rule a)
      show "put_fault f = None \<longrightarrow> (500::nat) = 413" using Some by simp
    qed
  qed
qed

text \<open>
  C2. A part with a non-empty filename whose file delivers more than \<open>maxFileSizeByte\<close>
  bytes: the file splits into reads \<open>pre\<close> that stay within the ceiling, the read
  \<open>chunk\<close> that takes the counter above it, and the rest \<open>post\<close>; the producer has
  written exactly the bytes of \<open>pre\<close> (at most 50 MiB, without \<open>chunk\<close>), has closed the
  pipe with the size-exceeded error and has left \<open>post\<close> unread; the put fails, the
  handler answers with an error that carries no list of uploaded keys (413 when the
  backend is available), and the bucket is what it was before.
\<close>

theorem oversized_upload_aborts:
  assumes "fh_Filename f \<noteq> []" "fh_Open f = Inr rd"
    "maxFileSizeByte < int (length (delivered rd))"
  shows "\<exists>pre chunk e post code msg.
           rd = pre @ (chunk, e) # post \<and> (\<forall>r\<in>set pre. snd r = None) \<and>
           int (length (concat (map fst pre))) \<le> maxFileSizeByte \<and>
           maxFileSizeByte < int (length (concat (map fst pre))) + int (length chunk) \<and>
           producer (fh_Filename f) rd 0 io_Pipe =
             (\<lparr>data = concat (map fst pre), rerr = None,
               werr = Some (size_exceeded (fh_Filename f))\<rparr>, post) \<and>
           upload_loop bk acc (f # rest) = (HTTPError code msg, bk) \<and>
           uploadFilesHandler bk (Inr [(''files'', f # rest)]) = (HTTPError code msg, bk) \<and>
           (put_fault f = None \<longrightarrow> code = 413)"
proof -
  from producer_aborts [OF assms(3), of "fh_Filename f"] obtain pre chunk e post where
    p1: "rd = pre @ (chunk, e) # post" and p2: "\<forall>r\<in>set pre. snd r = None" and
    p3: "int (length (concat (map fst pre))) \<le> maxFileSizeByte" and
    p4: "maxFileSizeByte < int (length (concat (map fst pre))) + int (length chunk)" and
    p5: "producer (fh_Filename f) rd 0 io_Pipe =
          (\<lparr>data = concat (map fst pre), rerr = None,
            werr = Some (size_exceeded (fh_Filename f))\<rparr>, post)"
    by (elim exE conjE)
  from upload_step_fails [OF assms, of bk] obtain code msg where
    u: "\<forall>acc rest. upload_loop bk acc (f # rest) = (HTTPError code msg, bk)" and
    c: "put_fault f = None \<longrightarrow> code = 413"
    by (elim exE conjE)
  from u have u1: "upload_loop bk acc (f # rest) = (HTTPError code msg, bk)"
    by (elim allE)
  from u have u2: "upload_loop bk [] (f # rest) = (HTTPError code msg, bk)"
    by (elim allE)
  have h: "uploadFilesHandler bk (Inr [(''files'', f # rest)]) = (HTTPError code msg, bk)"
    unfolding uploadFilesHandler_def form_File_def
    by (simp add: u2 del: upload_loop.simps)
  show ?thesis
  proof (intro exI conjI)
    show "rd = pre @ (chunk, e) # post" by (rule p1)
    show "\<forall>r\<in>set pre. snd r = None" by (rule p2)
    show "int (length (concat (map fst pre))) \<le> maxFileSizeByte" by (rule p3)
    show "maxFileSizeByte < int (length (concat (map fst pre))) + int (length chunk)"
      by (rule p4)
    show "producer (fh_Filename f) rd 0 io_Pipe =
          (\<lparr>data = concat (map fst pre), rerr = None,
            werr = Some (size_exceeded (fh_Filename f))\<rparr>, post)" by (rule p5)
    show "upload_loop bk acc (f # rest) = (HTTPError code msg, bk)" by (rule u1)
    show "uploadFilesHandler bk (Inr [(''files'', f # rest)]) = (HTTPError code msg, bk)"
      by (rule h)
    show "put_fault f = None \<longrightarrow> code = 413" by (rule c)
  qed
qed

theorem oversized_upload_aborts_witness:
  "fh_Filename oversized_part \<noteq> [] \<and> fh_Open oversized_part = Inr oversized \<and>
   maxFileSizeByte < int (length (delivered oversized)) \<and>
   (\<exists>pre chunk e post code msg.
      oversized = pre @ (chunk, e) # post \<and> (\<forall>r\<in>set pre. snd r = None) \<and>
      int (length (concat (map fst pre))) \<le> maxFileSizeByte \<and>
      maxFileSizeByte < int (length (concat (map fst pre))) + int (length chunk) \<and>
      producer (fh_Filename oversized_part) oversized 0 io_Pipe =
        (\<lparr>data = concat (map fst pre), rerr = None,
          werr = Some (size_exceeded (fh_Filename oversized_part))\<rparr>, post) \<and>
      upload_loop empty_bucket [] [oversized_part] = (HTTPError code msg, empty_bucket) \<and>
      uploadFilesHandler empty_bucket (Inr [(''files'', [oversized_part])]) =
        (HTTPError code msg, empty_bucket) \<and>
      (put_fault oversized_part = None \<longrightarrow> code = 413))"
proof -
  have h1: "fh_Filename oversized_part \<noteq> []"
    by (simp add: oversized_part_def)
  have h2: "fh_Open oversized_part = Inr oversized"
    by (simp add: oversized_part_def)
  have h3: "maxFileSizeByte < int (length (delivered oversized))"
    by (simp add: oversized_def delivered_replicate length_concat_replicate maxFileSizeByte_eq)
  show ?thesis
    by (rule conjI [OF h1 conjI [OF h2 conjI [OF h3 oversized_upload_aborts [OF h1 h2 h3]]]])
qed

section \<open>The status of a failed upload\<close>

lemma marker_in_message: "strings_Contains (pre @ size_marker) size_marker"
  unfolding strings_Contains_def using sublist_appendI [of size_marker pre "[]"] by simp

text \<open>
  C3, as the claim states it, fails: a file of three bytes, far below the ceiling and
  written to the pipe in full, whose put fails with a backend error whose message
  contains the size-exceeded text, is answered with 413.
\<close>

theorem size_status_by_text_counterexample:
  "int (length (delivered [([1, 2, 3 :: byte], Some io_EOF)])) \<le> maxFileSizeByte \<and>
   fst (producer ''a.txt'' [([1, 2, 3], Some io_EOF)] 0 io_Pipe) =
     \<lparr>data = [1, 2, 3], rerr = None, werr = Some io_EOF\<rparr> \<and>
   uploadFilesHandler \<lparr>objects = [], clock = 0\<rparr>
     (Inr [(''files'',
            [\<lparr>fh_Filename = ''a.txt'', fh_Open = Inr [([1, 2, 3], Some io_EOF)],
              uuid_New = ''00000000-0000-4000-8000-000000000001'',
              put_fault = Some (awserr ''EntityTooLarge''
                (''request body '' @ size_marker) None)\<rparr>])]) =
     (HTTPError 413 (''EntityTooLarge: request body '' @ size_marker),
      \<lparr>objects = [], clock = 0\<rparr>)"
proof -
  have m: "strings_Contains (''EntityTooLarge: request body '' @ size_marker) size_marker"
    by (rule marker_in_message)
  have p: "fst (producer ''a.txt'' [([1, 2, 3], Some io_EOF)] 0 io_Pipe) =
     \<lparr>data = [1, 2, 3], rerr = None, werr = Some io_EOF\<rparr>"
    by (simp add: io_Pipe_def pw_Write_def pw_Close_def pw_CloseWithError_def
        maxFileSizeByte_eq)
  show ?thesis
    using m by (simp add: p uploadFilesHandler_def form_File_def s3Uploader_Upload_def
        maxFileSizeByte_eq del: producer.simps)
qed

text \<open>
  C3, amended. For a part with a non-empty filename whose file opens, every failure of
  the put is answered with 413 if the message of the error contains the text
  \<open>size_marker\<close> and with 500 otherwise: so it is for a failure of the backend, and
  for a read error on the client's stream (which reaches the handler wrapped by the
  uploader); a file above the ceiling, with the backend available, is always answered
  with 413, since the message of the producer's error contains the text.
\<close>

theorem upload_failure_status:
  assumes "fh_Filename f \<noteq> []" "fh_Open f = Inr rd"
  shows "(\<forall>err. put_fault f = Some err \<longrightarrow>
            upload_loop bk acc (f # rest) =
              (if strings_Contains (Error err) size_marker then HTTPError 413 (Error err)
               else HTTPError 500 (''Could not upload file '' @ [quote] @ fh_Filename f @ [quote]),
               bk)) \<and>
         (put_fault f = None \<and> int (length (delivered rd)) \<le> maxFileSizeByte \<and>
          read_end rd \<noteq> io_EOF \<longrightarrow>
            upload_loop bk acc (f # rest) =
              (if strings_Contains (Error (aborted_by (read_end rd))) size_marker
               then HTTPError 413 (Error (aborted_by (read_end rd)))
               else HTTPError 500 (''Could not upload file '' @ [quote] @ fh_Filename f @ [quote]),
               bk)) \<and>
         (put_fault f = None \<and> maxFileSizeByte < int (length (delivered rd)) \<longrightarrow>
            upload_loop bk acc (f # rest) =
              (HTTPError 413 (Error (aborted_by (size_exceeded (fh_Filename f)))), bk) \<and>
            strings_Contains (Error (aborted_by (size_exceeded (fh_Filename f)))) size_marker)"
proof (intro conjI allI impI)
  fix err
  assume fault: "put_fault f = Some err"
  have "\<exists>d e. fst (producer (fh_Filename f) rd 0 io_Pipe) = \<lparr>data = d, rerr = None, werr = Some e\<rparr>"
  proof (cases "int (length (delivered rd)) \<le> maxFileSizeByte")
    case True
    from producer_completes [OF True, of "fh_Filename f"] show ?thesis
      by (intro exI)
  next
    case False
    then have "maxFileSizeByte < int (length (delivered rd))" by simp
    from producer_aborts [OF this, of "fh_Filename f"] obtain written where
      "fst (producer (fh_Filename f) rd 0 io_Pipe) =
         \<lparr>data = written, rerr = None, werr = Some (size_exceeded (fh_Filename f))\<rparr>"
      by force
    then show ?thesis by (intro exI)
  qed
  then obtain d e where
    "fst (producer (fh_Filename f) rd 0 io_Pipe) = \<lparr>data = d, rerr = None, werr = Some e\<rparr>"
    by (elim exE)
  with assms fault show "upload_loop bk acc (f # rest) =
              (if strings_Contains (Error err) size_marker then HTTPError 413 (Error err)
               else HTTPError 500 (''Could not upload file '' @ [quote] @ fh_Filename f @ [quote]),
               bk)"
    by (simp add: s3Uploader_Upload_def Let_def)
next
  assume a: "put_fault f = None \<and> int (length (delivered rd)) \<le> maxFileSizeByte \<and>
          read_end rd \<noteq> io_EOF"
  then have "fst (producer (fh_Filename f) rd 0 io_Pipe) =
           \<lparr>data = delivered rd, rerr = None, werr = Some (read_end rd)\<rparr>"
    using producer_completes [of rd "fh_Filename f"] by simp
  with assms a show "upload_loop bk acc (f # rest) =
              (if strings_Contains (Error (aborted_by (read_end rd))) size_marker
               then HTTPError 413 (Error (aborted_by (read_end rd)))
               else HTTPError 500 (''Could not upload file '' @ [quote] @ fh_Filename f @ [quote]),
               bk)"
    by (simp add: s3Uploader_Upload_def Let_def)
next
  assume a: "put_fault f = None \<and> maxFileSizeByte < int (length (delivered rd))"
  with upload_step_exceeds [OF assms, of bk acc rest]
  show "upload_loop bk acc (f # rest) =
              (HTTPError 413 (Error (aborted_by (size_exceeded (fh_Filename f)))), bk)"
    by simp
next
  show "strings_Contains (Error (aborted_by (size_exceeded (fh_Filename f)))) size_marker"
    by (rule size_exceeded_marked)
qed

lemma plain_messages:
  "\<not> strings_Contains (Error (awserr ''RequestError'' ''send request failed'' None)) size_marker"
  "\<not> strings_Contains (Error (aborted_by (errorString ''unexpected EOF''))) size_marker"
  by (simp_all add: strings_Contains_def size_marker_eq aborted_by_def sublist_code)

theorem upload_failure_status_witness:
  "fh_Filename refused_part \<noteq> [] \<and>
   fh_Open refused_part = Inr [([1, 2, 3], Some io_EOF)] \<and>
   put_fault refused_part = Some (awserr ''RequestError'' ''send request failed'' None) \<and>
   upload_loop empty_bucket [] [refused_part] =
     (HTTPError 500 (''Could not upload file '' @ [quote] @ ''a.txt'' @ [quote]), empty_bucket) \<and>
   fh_Filename broken_part \<noteq> [] \<and>
   fh_Open broken_part = Inr [([1, 2], None), ([], Some (errorString ''unexpected EOF''))] \<and>
   put_fault broken_part = None \<and>
   int (length (delivered [([1, 2 :: byte], None), ([], Some (errorString ''unexpected EOF''))]))
     \<le> maxFileSizeByte \<and>
   read_end [([1, 2 :: byte], None), ([], Some (errorString ''unexpected EOF''))] \<noteq> io_EOF \<and>
   upload_loop empty_bucket [] [broken_part] =
     (HTTPError 500 (''Could not upload file '' @ [quote] @ ''b.txt'' @ [quote]), empty_bucket) \<and>
   fh_Filename oversized_part \<noteq> [] \<and> fh_Open oversized_part = Inr oversized \<and>
   put_fault oversized_part = None \<and> maxFileSizeByte < int (length (delivered oversized)) \<and>
   upload_loop empty_bucket [] [oversized_part] =
     (HTTPError 413 (Error (aborted_by (size_exceeded ''big.bin''))), empty_bucket)"
proof -
  have a1: "fh_Filename refused_part \<noteq> []"
    and a2: "fh_Open refused_part = Inr [([1, 2, 3], Some io_EOF)]"
    and a3: "put_fault refused_part = Some (awserr ''RequestError'' ''send request failed'' None)"
    by (simp_all add: refused_part_def)
  have a: "upload_loop empty_bucket [] [refused_part] =
     (HTTPError 500 (''Could not upload file '' @ [quote] @ ''a.txt'' @ [quote]), empty_bucket)"
    using upload_failure_status [OF a1 a2, of empty_bucket "[]" "[]", THEN conjunct1,
        rule_format, OF a3] plain_messages(1)
    by (simp add: refused_part_def del: upload_loop.simps)
  have b1: "fh_Filename broken_part \<noteq> []"
    and b2: "fh_Open broken_part =
      Inr [([1, 2], None), ([], Some (errorString ''unexpected EOF''))]"
    by (simp_all add: broken_part_def)
  have b3: "put_fault broken_part = None \<and>
     int (length (delivered [([1, 2 :: byte], None), ([], Some (errorString ''unexpected EOF''))]))
       \<le> maxFileSizeByte \<and>
     read_end [([1, 2 :: byte], None), ([], Some (errorString ''unexpected EOF''))] \<noteq> io_EOF"
    by (simp add: broken_part_def maxFileSizeByte_eq)
  have b: "upload_loop empty_bucket [] [broken_part] =
     (HTTPError 500 (''Could not upload file '' @ [quote] @ ''b.txt'' @ [quote]), empty_bucket)"
    using upload_failure_status [OF b1 b2, of empty_bucket "[]" "[]", THEN conjunct2,
        THEN conjunct1, rule_format, OF b3] plain_messages(2)
    by (simp add: broken_part_def del: upload_loop.simps)
  have c1: "fh_Filename oversized_part \<noteq> []"
    and c2: "fh_Open oversized_part = Inr oversized"
    by (simp_all add: oversized_part_def)
  have c3: "put_fault oversized_part = None \<and> maxFileSizeByte < int (length (delivered oversized))"
    by (simp add: oversized_part_def oversized_def delivered_replicate length_concat_replicate
        maxFileSizeByte_eq)
  have c: "upload_loop empty_bucket [] [oversized_part] =
     (HTTPError 413 (Error (aborted_by (size_exceeded ''big.bin''))), empty_bucket)"
    using upload_failure_status [OF c1 c2, of empty_bucket "[]" "[]", THEN conjunct2,
        THEN conjunct2, rule_format, OF c3, THEN conjunct1]
    by (simp add: oversized_part_def del: upload_loop.simps)
  from a1 a2 a3 a b1 b2 b3 b c1 c2 c3 c show ?thesis
    by (simp del: upload_loop.simps)
qed

section \<open>A batch that fails part-way\<close>

text \<open>
  C4. The parts of a request are handled in the order submitted. When the parts \<open>pre\<close>
  all go through (or are skipped for an empty filename) and the next part is a file
  above the ceiling, with the backend available, the request is answered with 413;
  the bucket is the one left by the uploads of \<open>pre\<close>, which is also where a request of
  \<open>pre\<close> alone ends with 201 and the keys of \<open>pre\<close> in order, so every key minted for
  \<open>pre\<close> is still in the bucket; and the parts \<open>post\<close> after the failing one have no
  effect on the answer or on the bucket.
\<close>

theorem partial_batch_not_rolled_back:
  assumes "\<forall>p\<in>set pre. passes p" "fh_Filename f \<noteq> []" "fh_Open f = Inr rd"
    "maxFileSizeByte < int (length (delivered rd))" "put_fault f = None"
  shows "uploadFilesHandler bk (Inr [(''files'', pre @ f # post)]) =
           (HTTPError 413 (Error (aborted_by (size_exceeded (fh_Filename f)))),
            persisted bk pre) \<and>
         uploadFilesHandler bk (Inr [(''files'', pre @ f # post)]) =
           uploadFilesHandler bk (Inr [(''files'', pre @ [f])]) \<and>
         upload_loop bk [] pre =
           (JSON_uploaded 201 ''Files uploaded successfully'' (minted pre), persisted bk pre) \<and>
         (\<forall>p\<in>set pre. fh_Filename p \<noteq> [] \<longrightarrow>
            session_key p \<in> fst ` set (objects (persisted bk pre)))"
proof -
  have l: "upload_loop bk [] (pre @ f # rest) =
             (HTTPError 413 (Error (aborted_by (size_exceeded (fh_Filename f)))),
              persisted bk pre)" for rest
    using upload_loop_passes [OF assms(1), of bk "[]" "f # rest"]
      upload_step_exceeds [OF assms(2-5), of "persisted bk pre" "minted pre" rest]
    by (simp del: upload_loop.simps)
  have h: "uploadFilesHandler bk (Inr [(''files'', pre @ f # rest)]) =
             (HTTPError 413 (Error (aborted_by (size_exceeded (fh_Filename f)))),
              persisted bk pre)" for rest
    by (simp add: uploadFilesHandler_def form_File_def l del: upload_loop.simps)
  have e: "upload_loop bk [] pre =
           (JSON_uploaded 201 ''Files uploaded successfully'' (minted pre), persisted bk pre)"
    using upload_loop_passes [OF assms(1), of bk "[]" "[]"] by simp
  have k: "\<forall>p\<in>set pre. fh_Filename p \<noteq> [] \<longrightarrow>
            session_key p \<in> fst ` set (objects (persisted bk pre))"
    by (intro ballI impI) (rule persisted_has)
  show ?thesis
  proof (intro conjI)
    show "uploadFilesHandler bk (Inr [(''files'', pre @ f # post)]) =
           (HTTPError 413 (Error (aborted_by (size_exceeded (fh_Filename f)))),
            persisted bk pre)" by (rule h)
    show "uploadFilesHandler bk (Inr [(''files'', pre @ f # post)]) =
           uploadFilesHandler bk (Inr [(''files'', pre @ [f])])"
      by (simp only: h)
    show "upload_loop bk [] pre =
           (JSON_uploaded 201 ''Files uploaded successfully'' (minted pre), persisted bk pre)"
      by (rule e)
    show "\<forall>p\<in>set pre. fh_Filename p \<noteq> [] \<longrightarrow>
            session_key p \<in> fst ` set (objects (persisted bk pre))" by (rule k)
  qed
qed

theorem partial_batch_not_rolled_back_witness:
  "passes small_part \<and> passes unnamed_part \<and>
   fh_Filename oversized_part \<noteq> [] \<and> fh_Open oversized_part = Inr oversized \<and>
   maxFileSizeByte < int (length (delivered oversized)) \<and> put_fault oversized_part = None \<and>
   uploadFilesHandler empty_bucket
       (Inr [(''files'', [small_part, unnamed_part] @ oversized_part # [later_part])]) =
     (HTTPError 413 (Error (aborted_by (size_exceeded (fh_Filename oversized_part)))),
      persisted empty_bucket [small_part, unnamed_part]) \<and>
   uploadFilesHandler empty_bucket
       (Inr [(''files'', [small_part, unnamed_part] @ oversized_part # [later_part])]) =
     uploadFilesHandler empty_bucket
       (Inr [(''files'', [small_part, unnamed_part] @ [oversized_part])]) \<and>
   upload_loop empty_bucket [] [small_part, unnamed_part] =
     (JSON_uploaded 201 ''Files uploaded successfully'' (minted [small_part, unnamed_part]),
      persisted empty_bucket [small_part, unnamed_part]) \<and>
   fh_Filename small_part \<noteq> [] \<and>
   session_key small_part \<in>
     fst ` set (objects (persisted empty_bucket [small_part, unnamed_part])) \<and>
   minted [small_part, unnamed_part] = [''00000000-0000-4000-8000-000000000001_a.txt''] \<and>
   persisted empty_bucket [small_part, unnamed_part] =
     \<lparr>objects = [(''00000000-0000-4000-8000-000000000001_a.txt'',
                  \<lparr>content = [1, 2, 3, 4], modified = 0,
                   content_type = ''binary/octet-stream''\<rparr>)],
      clock = 1\<rparr>"
proof -
  have h1: "\<forall>p\<in>set [small_part, unnamed_part]. passes p"
    by (simp add: passes_def completes_def small_part_def unnamed_part_def maxFileSizeByte_eq)
  have h2: "fh_Filename oversized_part \<noteq> []"
    and h3: "fh_Open oversized_part = Inr oversized"
    and h5: "put_fault oversized_part = None"
    by (simp_all add: oversized_part_def)
  have h4: "maxFileSizeByte < int (length (delivered oversized))"
    by (simp add: oversized_def delivered_replicate length_concat_replicate maxFileSizeByte_eq)
  have m: "minted [small_part, unnamed_part] = [''00000000-0000-4000-8000-000000000001_a.txt'']"
    by (simp add: minted_def session_key_def uniqueFilename_def filepath_Base_def
        IsPathSeparator_def small_part_def unnamed_part_def)
  have p: "persisted empty_bucket [small_part, unnamed_part] =
     \<lparr>objects = [(''00000000-0000-4000-8000-000000000001_a.txt'',
                  \<lparr>content = [1, 2, 3, 4], modified = 0,
                   content_type = ''binary/octet-stream''\<rparr>)],
      clock = 1\<rparr>"
    by (simp add: session_key_def uniqueFilename_def filepath_Base_def IsPathSeparator_def
        small_part_def unnamed_part_def opened_def put_object_def empty_bucket_def)
  note t = partial_batch_not_rolled_back [OF h1 h2 h3 h4 h5, of empty_bucket "[later_part]"]
  from h1 have q: "passes small_part \<and> passes unnamed_part" by simp
  have n: "fh_Filename small_part \<noteq> []" by (simp add: small_part_def)
  have s: "small_part \<in> set [small_part, unnamed_part]" by simp
  have k: "session_key small_part \<in>
      fst ` set (objects (persisted empty_bucket [small_part, unnamed_part]))"
    by (rule t [THEN conjunct2, THEN conjunct2, THEN conjunct2, rule_format, OF s n])
  show ?thesis
    by (rule conjI [OF q [THEN conjunct1] conjI [OF q [THEN conjunct2]
          conjI [OF h2 conjI [OF h3 conjI [OF h4 conjI [OF h5
          conjI [OF t [THEN conjunct1] conjI [OF t [THEN conjunct2, THEN conjunct1]
          conjI [OF t [THEN conjunct2, THEN conjunct2, THEN conjunct1]
          conjI [OF n conjI [OF k conjI [OF m p]]]]]]]]]]]])
qed

section \<open>Keys\<close>

text \<open>
  Two keys built from different UUID strings differ, whatever the filenames.
\<close>

lemma keys_differ:
  assumes "uuid_String_format u1" "uuid_String_format u2" "u1 \<noteq> u2"
  shows "uniqueFilename u1 name1 \<noteq> uniqueFilename u2 name2"
proof
  assume "uniqueFilename u1 name1 = uniqueFilename u2 name2"
  then have "u1 @ (''_'' @ filepath_Base name1) = u2 @ (''_'' @ filepath_Base name2)"
    by (simp add: uniqueFilename_def)
  moreover have "length u1 = length u2"
    using assms(1,2) by (simp add: uuid_String_format_def)
  ultimately have "u1 = u2"
    using append_eq_append_conv [of u1 u2 "''_'' @ filepath_Base name1" "''_'' @ filepath_Base name2"]
    by simp
  with assms(3) show False by simp
qed

lemma get_stored:
  assumes "map_of (objects bk) k = Some ob"
  shows "getFileHandler bk None k =
           Streamed 200
             [(''Content-Type'', content_type ob),
              (''Content-Length'', Sprintf_d (int (length (content ob)))),
              (''Content-Disposition'', ''attachment; filename='' @ [dquote] @ k @ [dquote])]
             (content ob)"
  using assms unfolding getFileHandler_def s3_GetObject_def
  by (simp add: io_Copy_def aws_StringValue_def aws_Int64Value_def)

lemma upload_single:
  assumes "fh_Filename f \<noteq> []" "fh_Open f = Inr rd"
    "int (length (delivered rd)) \<le> maxFileSizeByte" "read_end rd = io_EOF" "put_fault f = None"
  shows "uploadFilesHandler bk (Inr [(''files'', [f])]) =
           (JSON_uploaded 201 ''Files uploaded successfully''
              [uuid_New f @ ''_'' @ filepath_Base (fh_Filename f)],
            put_object bk (uuid_New f @ ''_'' @ filepath_Base (fh_Filename f)) (delivered rd))"
proof -
  have c: "completes f" using assms by (simp add: completes_def)
  show ?thesis
    using upload_step_completes [OF assms(1) c, of bk "[]" "[]"] assms(2)
    by (simp add: uploadFilesHandler_def form_File_def opened_def session_key_def
        uniqueFilename_def)
qed

text \<open>
  C5. Every upload mints its key as the string of the UUID drawn for it, an underscore
  and the base name of the filename. For two files that upload, in two requests one
  after the other, whose UUIDs differ: each request answers 201 with the key of that
  form, the two keys differ, also when the filenames are equal, and after both uploads
  a get of each key answers 200 with the bytes of its own file, so neither upload took
  the key of the other. Sent in one request, the two files get the same two keys, in
  order.
\<close>

theorem two_uploads_distinct_keys:
  assumes "fh_Filename f1 \<noteq> []" "fh_Open f1 = Inr rd1"
    "int (length (delivered rd1)) \<le> maxFileSizeByte" "read_end rd1 = io_EOF"
    "put_fault f1 = None"
    and "fh_Filename f2 \<noteq> []" "fh_Open f2 = Inr rd2"
    "int (length (delivered rd2)) \<le> maxFileSizeByte" "read_end rd2 = io_EOF"
    "put_fault f2 = None"
    and "uuid_String_format (uuid_New f1)" "uuid_String_format (uuid_New f2)"
    "uuid_New f1 \<noteq> uuid_New f2"
    and "bk1 = snd (uploadFilesHandler bk (Inr [(''files'', [f1])]))"
    and "bk2 = snd (uploadFilesHandler bk1 (Inr [(''files'', [f2])]))"
  shows "fst (uploadFilesHandler bk (Inr [(''files'', [f1])])) =
           JSON_uploaded 201 ''Files uploaded successfully''
             [uuid_New f1 @ ''_'' @ filepath_Base (fh_Filename f1)] \<and>
         fst (uploadFilesHandler bk1 (Inr [(''files'', [f2])])) =
           JSON_uploaded 201 ''Files uploaded successfully''
             [uuid_New f2 @ ''_'' @ filepath_Base (fh_Filename f2)] \<and>
         uuid_New f1 @ ''_'' @ filepath_Base (fh_Filename f1) \<noteq>
           uuid_New f2 @ ''_'' @ filepath_Base (fh_Filename f2) \<and>
         (\<exists>hs. getFileHandler bk2 None (uuid_New f1 @ ''_'' @ filepath_Base (fh_Filename f1)) =
                 Streamed 200 hs (delivered rd1)) \<and>
         (\<exists>hs. getFileHandler bk2 None (uuid_New f2 @ ''_'' @ filepath_Base (fh_Filename f2)) =
                 Streamed 200 hs (delivered rd2)) \<and>
         fst (uploadFilesHandler bk (Inr [(''files'', [f1, f2])])) =
           JSON_uploaded 201 ''Files uploaded successfully''
             [uuid_New f1 @ ''_'' @ filepath_Base (fh_Filename f1),
              uuid_New f2 @ ''_'' @ filepath_Base (fh_Filename f2)]"
proof -
  let ?k1 = "uuid_New f1 @ ''_'' @ filepath_Base (fh_Filename f1)"
  let ?k2 = "uuid_New f2 @ ''_'' @ filepath_Base (fh_Filename f2)"
  have ne: "?k1 \<noteq> ?k2"
    using keys_differ [OF assms(11,12,13), of "fh_Filename f1" "fh_Filename f2"]
    by (simp add: uniqueFilename_def)
  have u1: "uploadFilesHandler bk (Inr [(''files'', [f1])]) =
      (JSON_uploaded 201 ''Files uploaded successfully'' [?k1],
       put_object bk ?k1 (delivered rd1))"
    by (rule upload_single [OF assms(1-5)])
  then have b1: "bk1 = put_object bk ?k1 (delivered rd1)"
    using assms(14) by simp
  have u2: "uploadFilesHandler bk1 (Inr [(''files'', [f2])]) =
      (JSON_uploaded 201 ''Files uploaded successfully'' [?k2],
       put_object bk1 ?k2 (delivered rd2))"
    by (rule upload_single [OF assms(6-10)])
  then have b2: "bk2 = put_object bk1 ?k2 (delivered rd2)"
    using assms(15) by simp
  have m1: "map_of (objects bk2) ?k1 =
      Some \<lparr>content = delivered rd1, modified = clock bk,
            content_type = ''binary/octet-stream''\<rparr>"
    using ne by (simp add: b1 b2 put_object_def update_conv')
  have m2: "map_of (objects bk2) ?k2 =
      Some \<lparr>content = delivered rd2, modified = clock bk1,
            content_type = ''binary/octet-stream''\<rparr>"
    by (simp add: b2 put_object_def update_conv')
  have g1: "\<exists>hs. getFileHandler bk2 None ?k1 = Streamed 200 hs (delivered rd1)"
    using get_stored [OF m1] by simp
  have g2: "\<exists>hs. getFileHandler bk2 None ?k2 = Streamed 200 hs (delivered rd2)"
    using get_stored [OF m2] by simp
  have c1: "completes f1" using assms(2-5) by (simp add: completes_def)
  have c2: "completes f2" using assms(7-10) by (simp add: completes_def)
  have "upload_loop bk [] [f1, f2] =
      upload_loop (put_object bk (session_key f1) (delivered (opened f1))) [session_key f1] [f2]"
    using upload_step_completes [OF assms(1) c1, of bk "[]" "[f2]"] by simp
  also have "\<dots> =
      upload_loop (put_object (put_object bk (session_key f1) (delivered (opened f1)))
                     (session_key f2) (delivered (opened f2)))
        [session_key f1, session_key f2] []"
    using upload_step_completes [OF assms(6) c2,
        of "put_object bk (session_key f1) (delivered (opened f1))" "[session_key f1]" "[]"]
    by simp
  finally have "fst (upload_loop bk [] [f1, f2]) =
      JSON_uploaded 201 ''Files uploaded successfully'' [?k1, ?k2]"
    by (simp add: session_key_def uniqueFilename_def)
  then have u12: "fst (uploadFilesHandler bk (Inr [(''files'', [f1, f2])])) =
      JSON_uploaded 201 ''Files uploaded successfully'' [?k1, ?k2]"
    by (simp add: uploadFilesHandler_def form_File_def del: upload_loop.simps)
  show ?thesis
  proof (intro conjI)
    show "fst (uploadFilesHandler bk (Inr [(''files'', [f1])])) =
           JSON_uploaded 201 ''Files uploaded successfully'' [?k1]"
      by (simp only: u1 fst_conv)
    show "fst (uploadFilesHandler bk1 (Inr [(''files'', [f2])])) =
           JSON_uploaded 201 ''Files uploaded successfully'' [?k2]"
      by (simp only: u2 fst_conv)
    show "?k1 \<noteq> ?k2" by (rule ne)
    show "\<exists>hs. getFileHandler bk2 None ?k1 = Streamed 200 hs (delivered rd1)" by (rule g1)
    show "\<exists>hs. getFileHandler bk2 None ?k2 = Streamed 200 hs (delivered rd2)" by (rule g2)
    show "fst (uploadFilesHandler bk (Inr [(''files'', [f1, f2])])) =
           JSON_uploaded 201 ''Files uploaded successfully'' [?k1, ?k2]" by (rule u12)
  qed
qed

theorem two_uploads_distinct_keys_witness:
  "fh_Filename small_part \<noteq> [] \<and>
   fh_Open small_part = Inr [([1, 2, 3], None), ([4], Some io_EOF)] \<and>
   int (length (delivered [([1, 2, 3 :: byte], None), ([4], Some io_EOF)])) \<le> maxFileSizeByte \<and>
   read_end [([1, 2, 3 :: byte], None), ([4], Some io_EOF)] = io_EOF \<and>
   put_fault small_part = None \<and>
   fh_Filename same_name_part \<noteq> [] \<and>
   fh_Open same_name_part = Inr [([7, 8], Some io_EOF)] \<and>
   int (length (delivered [([7, 8 :: byte], Some io_EOF)])) \<le> maxFileSizeByte \<and>
   read_end [([7, 8 :: byte], Some io_EOF)] = io_EOF \<and>
   put_fault same_name_part = None \<and>
   uuid_String_format (uuid_New small_part) \<and> uuid_String_format (uuid_New same_name_part) \<and>
   uuid_New small_part \<noteq> uuid_New same_name_part \<and>
   fh_Filename small_part = fh_Filename same_name_part \<and>
   uuid_New small_part @ ''_'' @ filepath_Base (fh_Filename small_part) =
     ''00000000-0000-4000-8000-000000000001_a.txt'' \<and>
   uuid_New same_name_part @ ''_'' @ filepath_Base (fh_Filename same_name_part) =
     ''00000000-0000-4000-8000-000000000002_a.txt'' \<and>
   delivered [([1, 2, 3 :: byte], None), ([4], Some io_EOF)] = [1, 2, 3, 4] \<and>
   delivered [([7, 8 :: byte], Some io_EOF)] = [7, 8] \<and>
   fst (uploadFilesHandler empty_bucket (Inr [(''files'', [small_part])])) =
     JSON_uploaded 201 ''Files uploaded successfully''
       [uuid_New small_part @ ''_'' @ filepath_Base (fh_Filename small_part)] \<and>
   fst (uploadFilesHandler (snd (uploadFilesHandler empty_bucket (Inr [(''files'', [small_part])])))
         (Inr [(''files'', [same_name_part])])) =
     JSON_uploaded 201 ''Files uploaded successfully''
       [uuid_New same_name_part @ ''_'' @ filepath_Base (fh_Filename same_name_part)] \<and>
   uuid_New small_part @ ''_'' @ filepath_Base (fh_Filename small_part) \<noteq>
     uuid_New same_name_part @ ''_'' @ filepath_Base (fh_Filename same_name_part) \<and>
   (\<exists>hs. getFileHandler
           (snd (uploadFilesHandler
                   (snd (uploadFilesHandler empty_bucket (Inr [(''files'', [small_part])])))
                   (Inr [(''files'', [same_name_part])])))
           None (uuid_New small_part @ ''_'' @ filepath_Base (fh_Filename small_part)) =
         Streamed 200 hs (delivered [([1, 2, 3], None), ([4], Some io_EOF)])) \<and>
   (\<exists>hs. getFileHandler
           (snd (uploadFilesHandler
                   (snd (uploadFilesHandler empty_bucket (Inr [(''files'', [small_part])])))
                   (Inr [(''files'', [same_name_part])])))
           None (uuid_New same_name_part @ ''_'' @ filepath_Base (fh_Filename same_name_part)) =
         Streamed 200 hs (delivered [([7, 8], Some io_EOF)])) \<and>
   fst (uploadFilesHandler empty_bucket (Inr [(''files'', [small_part, same_name_part])])) =
     JSON_uploaded 201 ''Files uploaded successfully''
       [uuid_New small_part @ ''_'' @ filepath_Base (fh_Filename small_part),
        uuid_New same_name_part @ ''_'' @ filepath_Base (fh_Filename same_name_part)]"
proof -
  have a1: "fh_Filename small_part \<noteq> []"
    and a2: "fh_Open small_part = Inr [([1, 2, 3], None), ([4], Some io_EOF)]"
    and a5: "put_fault small_part = None"
    by (simp_all add: small_part_def)
  have a3: "int (length (delivered [([1, 2, 3 :: byte], None), ([4], Some io_EOF)])) \<le>
      maxFileSizeByte"
    and a4: "read_end [([1, 2, 3 :: byte], None), ([4], Some io_EOF)] = io_EOF"
    by (simp_all add: maxFileSizeByte_eq)
  have b1: "fh_Filename same_name_part \<noteq> []"
    and b2: "fh_Open same_name_part = Inr [([7, 8], Some io_EOF)]"
    and b5: "put_fault same_name_part = None"
    by (simp_all add: same_name_part_def)
  have b3: "int (length (delivered [([7, 8 :: byte], Some io_EOF)])) \<le> maxFileSizeByte"
    and b4: "read_end [([7, 8 :: byte], Some io_EOF)] = io_EOF"
    by (simp_all add: maxFileSizeByte_eq)
  have u1: "uuid_String_format (uuid_New small_part)"
    by (simp add: small_part_def uuid_String_format_def is_hex_def)
  have u2: "uuid_String_format (uuid_New same_name_part)"
    by (simp add: same_name_part_def uuid_String_format_def is_hex_def)
  have u3: "uuid_New small_part \<noteq> uuid_New same_name_part"
    by (simp add: small_part_def same_name_part_def)
  have n: "fh_Filename small_part = fh_Filename same_name_part"
    by (simp add: small_part_def same_name_part_def)
  have k1: "uuid_New small_part @ ''_'' @ filepath_Base (fh_Filename small_part) =
     ''00000000-0000-4000-8000-000000000001_a.txt''"
    by (simp add: small_part_def filepath_Base_def IsPathSeparator_def)
  have k2: "uuid_New same_name_part @ ''_'' @ filepath_Base (fh_Filename same_name_part) =
     ''00000000-0000-4000-8000-000000000002_a.txt''"
    by (simp add: same_name_part_def filepath_Base_def IsPathSeparator_def)
  have d1: "delivered [([1, 2, 3 :: byte], None), ([4], Some io_EOF)] = [1, 2, 3, 4]"
    and d2: "delivered [([7, 8 :: byte], Some io_EOF)] = [7, 8]"
    by simp_all
  note t = two_uploads_distinct_keys [OF a1 a2 a3 a4 a5 b1 b2 b3 b4 b5 u1 u2 u3 refl refl,
      of empty_bucket]
  show ?thesis
    by (rule conjI [OF a1 conjI [OF a2 conjI [OF a3 conjI [OF a4 conjI [OF a5
          conjI [OF b1 conjI [OF b2 conjI [OF b3 conjI [OF b4 conjI [OF b5
          conjI [OF u1 conjI [OF u2 conjI [OF u3 conjI [OF n conjI [OF k1 conjI [OF k2
          conjI [OF d1 conjI [OF d2 t]]]]]]]]]]]]]]]]]])
qed

section \<open>Listing\<close>

lemma list_loop_objects:
  "list_loop (map (\<lambda>(k, ob). \<lparr>Key = Some k, LastModified = Some (modified ob)\<rparr>) obs) files =
     Some (files @ map (\<lambda>(k, ob). \<lparr>Filename = k, Path = ''/files/'' @ k, UploadedAt = modified ob\<rparr>)
                      (filter (\<lambda>(k, ob). \<not> suffix ''/'' k) obs))"
  by (induction obs arbitrary: files) (auto simp: strings_HasSuffix_def)

text \<open>
  C6. With the backend available the list handler answers 200 with one entry for each
  object of the bucket whose key does not end in \<open>/\<close>, in the backend's order, the
  filename being the key, the path \<open>/files/\<close> followed by the key and the time the
  one the backend recorded; when the listing fails it answers 500.
\<close>

theorem list_entries:
  "listFilesHandler bk None =
     JSON_files 200
       (map (\<lambda>(k, ob). \<lparr>Filename = k, Path = ''/files/'' @ k, UploadedAt = modified ob\<rparr>)
            (filter (\<lambda>(k, ob). \<not> suffix ''/'' k) (objects bk))) \<and>
   listFilesHandler bk (Some err) = HTTPError 500 ''Failed to list files from storage.''"
  by (simp add: listFilesHandler_def s3_ListObjectsV2_def list_loop_objects)

section \<open>Get and delete\<close>

text \<open>
  C7. The get handler answers 404 when the backend reports \<open>NoSuchKey\<close>, 500 on every
  other error of the backend, and otherwise 200 with the bytes of the backend's body,
  the content type and length of the backend's response, and a content disposition
  that names the requested key.
\<close>

theorem get_response:
  "(\<forall>msg orig. s3_GetObject bk fault k = Inl (awserr s3_ErrCodeNoSuchKey msg orig) \<longrightarrow>
      getFileHandler bk fault k =
        HTTPError 404 (''File '' @ [quote] @ k @ [quote] @ '' not found.'')) \<and>
   (\<forall>err. s3_GetObject bk fault k = Inl err \<and>
      (\<forall>msg orig. err \<noteq> awserr s3_ErrCodeNoSuchKey msg orig) \<longrightarrow>
      getFileHandler bk fault k = HTTPError 500 ''Failed to retrieve file.'') \<and>
   (\<forall>result. s3_GetObject bk fault k = Inr result \<longrightarrow>
      getFileHandler bk fault k =
        Streamed 200
          [(''Content-Type'', aws_StringValue (ContentType result)),
           (''Content-Length'', Sprintf_d (aws_Int64Value (ContentLength result))),
           (''Content-Disposition'', ''attachment; filename='' @ [dquote] @ k @ [dquote])]
          (delivered (Body result)))"
proof (intro conjI allI impI)
  fix msg orig
  assume "s3_GetObject bk fault k = Inl (awserr s3_ErrCodeNoSuchKey msg orig)"
  then show "getFileHandler bk fault k =
        HTTPError 404 (''File '' @ [quote] @ k @ [quote] @ '' not found.'')"
    by (simp add: getFileHandler_def)
next
  fix err
  assume a: "s3_GetObject bk fault k = Inl err \<and>
      (\<forall>msg orig. err \<noteq> awserr s3_ErrCodeNoSuchKey msg orig)"
  then show "getFileHandler bk fault k = HTTPError 500 ''Failed to retrieve file.''"
    by (cases err) (simp_all add: getFileHandler_def)
next
  fix result
  assume "s3_GetObject bk fault k = Inr result"
  then show "getFileHandler bk fault k =
        Streamed 200
          [(''Content-Type'', aws_StringValue (ContentType result)),
           (''Content-Length'', Sprintf_d (aws_Int64Value (ContentLength result))),
           (''Content-Disposition'', ''attachment; filename='' @ [dquote] @ k @ [dquote])]
          (delivered (Body result))"
    by (simp add: getFileHandler_def io_Copy_def)
qed

theorem get_response_witness:
  "s3_GetObject sample_bucket None ''missing'' =
     Inl (awserr s3_ErrCodeNoSuchKey ''The specified key does not exist.'' None) \<and>
   getFileHandler sample_bucket None ''missing'' =
     HTTPError 404 (''File '' @ [quote] @ ''missing'' @ [quote] @ '' not found.'') \<and>
   s3_GetObject sample_bucket (Some (errorString ''connection refused'')) ''k1'' =
     Inl (errorString ''connection refused'') \<and>
   getFileHandler sample_bucket (Some (errorString ''connection refused'')) ''k1'' =
     HTTPError 500 ''Failed to retrieve file.'' \<and>
   s3_GetObject sample_bucket None ''k1'' =
     Inr \<lparr>Body = [([1, 2, 3], Some io_EOF)], ContentType = Some ''text/plain'',
          ContentLength = Some 3\<rparr> \<and>
   getFileHandler sample_bucket None ''k1'' =
     Streamed 200
       [(''Content-Type'', ''text/plain''), (''Content-Length'', ''3''),
        (''Content-Disposition'', ''attachment; filename='' @ [dquote] @ ''k1'' @ [dquote])]
       [1, 2, 3]"
proof -
  have g1: "s3_GetObject sample_bucket None ''missing'' =
     Inl (awserr s3_ErrCodeNoSuchKey ''The specified key does not exist.'' None)"
    by (simp add: s3_GetObject_def sample_bucket_def)
  have g2: "s3_GetObject sample_bucket (Some (errorString ''connection refused'')) ''k1'' =
     Inl (errorString ''connection refused'') \<and>
     (\<forall>msg orig. errorString ''connection refused'' \<noteq> awserr s3_ErrCodeNoSuchKey msg orig)"
    by (simp add: s3_GetObject_def)
  have g3: "s3_GetObject sample_bucket None ''k1'' =
     Inr \<lparr>Body = [([1, 2, 3], Some io_EOF)], ContentType = Some ''text/plain'',
          ContentLength = Some 3\<rparr>"
    by (simp add: s3_GetObject_def sample_bucket_def)
  have r1: "getFileHandler sample_bucket None ''missing'' =
     HTTPError 404 (''File '' @ [quote] @ ''missing'' @ [quote] @ '' not found.'')"
    by (rule get_response [THEN conjunct1, rule_format, OF g1])
  have r2: "getFileHandler sample_bucket (Some (errorString ''connection refused'')) ''k1'' =
     HTTPError 500 ''Failed to retrieve file.''"
    by (rule get_response [THEN conjunct2, THEN conjunct1, rule_format, OF g2])
  have r3: "getFileHandler sample_bucket None ''k1'' =
     Streamed 200
       [(''Content-Type'', ''text/plain''), (''Content-Length'', ''3''),
        (''Content-Disposition'', ''attachment; filename='' @ [dquote] @ ''k1'' @ [dquote])]
       [1, 2, 3]"
    using get_response [THEN conjunct2, THEN conjunct2, rule_format, OF g3]
    by (simp add: aws_StringValue_def aws_Int64Value_def Sprintf_d_def)
  from g1 r1 g2 r2 g3 r3 show ?thesis by simp
qed

text \<open>
  C8. The delete handler answers 204 with no body whenever the backend's delete
  succeeds, whether or not the key exists: after a delete the key is absent, a second
  delete of it answers 204 again and leaves the bucket as it is, and a get of it
  answers 404. When the backend's delete fails the handler answers 500 and the bucket
  is unchanged.
\<close>

theorem delete_status:
  "fst (deleteFileHandler bk None k) = NoContent 204 \<and>
   map_of (objects (snd (deleteFileHandler bk None k))) k = None \<and>
   deleteFileHandler (snd (deleteFileHandler bk None k)) None k =
     (NoContent 204, snd (deleteFileHandler bk None k)) \<and>
   deleteFileHandler bk (Some err) k =
     (HTTPError 500 (''Could not delete file '' @ [quote] @ k @ [quote] @ ''.''), bk) \<and>
   getFileHandler (snd (deleteFileHandler bk None k)) None k =
     HTTPError 404 (''File '' @ [quote] @ k @ [quote] @ '' not found.'')"
  by (simp add: deleteFileHandler_def s3_DeleteObject_def getFileHandler_def s3_GetObject_def
      delete_conv' delete_idem)

section \<open>Requests without files\<close>

lemma producer_closes: "\<exists>d e. fst (producer fn rd 0 io_Pipe) = \<lparr>data = d, rerr = None, werr = Some e\<rparr>"
proof (cases "int (length (delivered rd)) \<le> maxFileSizeByte")
  case True
  from producer_completes [OF True, of fn] show ?thesis
    by (intro exI)
next
  case False
  then have "maxFileSizeByte < int (length (delivered rd))" by simp
  from producer_aborts [OF this, of fn] obtain written where
    "fst (producer fn rd 0 io_Pipe) = \<lparr>data = written, rerr = None, werr = Some (size_exceeded fn)\<rparr>"
    by force
  then show ?thesis by (intro exI)
qed

lemma upload_loop_status:
  "status (fst (upload_loop bk acc fs)) \<in> {Some 201, Some 413, Some 500}"
proof (induction fs arbitrary: bk acc)
  case Nil
  then show ?case by simp
next
  case (Cons f fs)
  show ?case
  proof (cases "fh_Filename f = []")
    case True
    with Cons show ?thesis by simp
  next
    case False
    show ?thesis
    proof (cases "fh_Open f")
      case (Inl err)
      with False show ?thesis by simp
    next
      case (Inr rd)
      from producer_closes [of "fh_Filename f" rd] obtain d e where
        p: "fst (producer (fh_Filename f) rd 0 io_Pipe) = \<lparr>data = d, rerr = None, werr = Some e\<rparr>"
        by (elim exE)
      show ?thesis
      proof (cases "put_fault f")
        case (Some err)
        with False Inr p show ?thesis by (simp add: Let_def s3Uploader_Upload_def)
      next
        case None
        show ?thesis
        proof (cases "e = io_EOF")
          case True
          with False Inr p None Cons show ?thesis
            by (simp add: Let_def s3Uploader_Upload_def)
        next
          case False
          with \<open>fh_Filename f \<noteq> []\<close> Inr p None show ?thesis
            by (simp add: Let_def s3Uploader_Upload_def)
        qed
      qed
    qed
  qed
qed

lemma upload_loop_not_400: "status (fst (upload_loop bk acc fs)) \<noteq> Some 400"
  using upload_loop_status [of bk acc fs] by auto

lemma form_File_readForm:
  "form_File (readForm parts) name =
     map snd (filter (\<lambda>np. fst np = name \<and> fh_Filename (snd np) \<noteq> []) parts)"
proof -
  let ?files = "filter (\<lambda>np. fh_Filename (snd np) \<noteq> []) parts"
  have m: "map_of (readForm parts) name =
      (if name \<in> set (map fst ?files)
       then Some (map snd (filter (\<lambda>np. fst np = name) ?files)) else None)"
    by (simp add: readForm_def Let_def map_of_map_restrict restrict_map_def)
  have f: "filter (\<lambda>np. fst np = name) ?files =
      filter (\<lambda>np. fst np = name \<and> fh_Filename (snd np) \<noteq> []) parts"
    by (simp add: conj_commute)
  show ?thesis
  proof (cases "name \<in> set (map fst ?files)")
    case True
    with m f show ?thesis by (simp add: form_File_def)
  next
    case False
    then have "filter (\<lambda>np. fst np = name) ?files = []"
      by (auto simp: filter_empty_conv)
    with m f False show ?thesis by (simp add: form_File_def)
  qed
qed

text \<open>
  C9, as the claim states it, fails: a request whose parts under \<open>files\<close> all have an
  empty filename has, once parsed, no file under \<open>files\<close>; it is answered with 400, not
  with 201, and nothing is uploaded.
\<close>

theorem empty_names_rejected_counterexample:
  "uploadFilesHandler \<lparr>objects = [], clock = 0\<rparr>
     (Inr (readForm
        [(''files'',
          \<lparr>fh_Filename = [], fh_Open = Inr [([5], Some io_EOF)],
           uuid_New = ''00000000-0000-4000-8000-000000000004'', put_fault = None\<rparr>),
         (''files'',
          \<lparr>fh_Filename = [], fh_Open = Inr [([6], Some io_EOF)],
           uuid_New = ''00000000-0000-4000-8000-000000000005'', put_fault = None\<rparr>)])) =
     (HTTPError 400 ''No files provided for upload.'', \<lparr>objects = [], clock = 0\<rparr>) \<and>
   status (fst (uploadFilesHandler \<lparr>objects = [], clock = 0\<rparr>
     (Inr (readForm
        [(''files'',
          \<lparr>fh_Filename = [], fh_Open = Inr [([5], Some io_EOF)],
           uuid_New = ''00000000-0000-4000-8000-000000000004'', put_fault = None\<rparr>),
         (''files'',
          \<lparr>fh_Filename = [], fh_Open = Inr [([6], Some io_EOF)],
           uuid_New = ''00000000-0000-4000-8000-000000000005'', put_fault = None\<rparr>)])))) \<noteq>
     Some 201"
  by (simp add: uploadFilesHandler_def form_File_readForm)

text \<open>
  C9, amended. The upload handler answers 400 exactly when the multipart form could
  not be parsed or has no file under the field \<open>files\<close>. A part whose filename is empty
  is not a file of the parsed form: no header of \<open>form.File\<close> has an empty filename, a
  request whose parts under \<open>files\<close> all have an empty filename is answered with 400
  and leaves the bucket as it is, and a request with at least one named part under
  \<open>files\<close> is not answered with 400.
\<close>

theorem upload_bad_request_parsed:
  "(status (fst (uploadFilesHandler bk parsed)) = Some 400) =
     (case parsed of Inl err \<Rightarrow> True | Inr f \<Rightarrow> form_File f ''files'' = []) \<and>
   (\<forall>p\<in>set (form_File (readForm parts) ''files''). fh_Filename p \<noteq> []) \<and>
   ((\<forall>np\<in>set parts. fst np = ''files'' \<longrightarrow> fh_Filename (snd np) = []) \<longrightarrow>
      uploadFilesHandler bk (Inr (readForm parts)) =
        (HTTPError 400 ''No files provided for upload.'', bk)) \<and>
   ((\<exists>np\<in>set parts. fst np = ''files'' \<and> fh_Filename (snd np) \<noteq> []) \<longrightarrow>
      status (fst (uploadFilesHandler bk (Inr (readForm parts)))) \<noteq> Some 400)"
proof (intro conjI impI)
  show "(status (fst (uploadFilesHandler bk parsed)) = Some 400) =
     (case parsed of Inl err \<Rightarrow> True | Inr f \<Rightarrow> form_File f ''files'' = [])"
    by (cases parsed)
      (simp_all add: uploadFilesHandler_def upload_loop_not_400 Let_def del: upload_loop.simps)
next
  show "\<forall>p\<in>set (form_File (readForm parts) ''files''). fh_Filename p \<noteq> []"
    by (auto simp: form_File_readForm)
next
  assume "\<forall>np\<in>set parts. fst np = ''files'' \<longrightarrow> fh_Filename (snd np) = []"
  then have "form_File (readForm parts) ''files'' = []"
    by (auto simp: form_File_readForm filter_empty_conv)
  then show "uploadFilesHandler bk (Inr (readForm parts)) =
        (HTTPError 400 ''No files provided for upload.'', bk)"
    by (simp add: uploadFilesHandler_def)
next
  assume "\<exists>np\<in>set parts. fst np = ''files'' \<and> fh_Filename (snd np) \<noteq> []"
  then have "form_File (readForm parts) ''files'' \<noteq> []"
    by (auto simp: form_File_readForm filter_empty_conv)
  then show "status (fst (uploadFilesHandler bk (Inr (readForm parts)))) \<noteq> Some 400"
    by (simp add: uploadFilesHandler_def upload_loop_not_400 Let_def del: upload_loop.simps)
qed

theorem upload_bad_request_parsed_witness:
  "status (fst (uploadFilesHandler empty_bucket (Inr [(''other'', [small_part])]))) = Some 400 \<and>
   status (fst (uploadFilesHandler empty_bucket
      (Inl (errorString ''request Content-Type isn't multipart/form-data'')))) = Some 400 \<and>
   form_File (readForm [(''files'', unnamed_part), (''files'', small_part)]) ''files'' =
     [small_part] \<and>
   fh_Filename small_part \<noteq> [] \<and>
   fst (''files'', unnamed_part) = ''files'' \<and> fh_Filename (snd (''files'', unnamed_part)) = [] \<and>
   uploadFilesHandler empty_bucket (Inr (readForm [(''files'', unnamed_part)])) =
     (HTTPError 400 ''No files provided for upload.'', empty_bucket) \<and>
   status (fst (uploadFilesHandler empty_bucket
      (Inr (readForm [(''files'', unnamed_part), (''files'', small_part)])))) \<noteq> Some 400"
proof -
  have a: "status (fst (uploadFilesHandler empty_bucket (Inr [(''other'', [small_part])]))) =
      Some 400"
    using upload_bad_request_parsed [of empty_bucket "Inr [(''other'', [small_part])]" "[]",
        THEN conjunct1]
    by (simp add: form_File_def)
  have b: "status (fst (uploadFilesHandler empty_bucket
      (Inl (errorString ''request Content-Type isn't multipart/form-data'')))) = Some 400"
    using upload_bad_request_parsed [of empty_bucket
        "Inl (errorString ''request Content-Type isn't multipart/form-data'')" "[]",
        THEN conjunct1]
    by simp
  have f: "form_File (readForm [(''files'', unnamed_part), (''files'', small_part)]) ''files'' =
     [small_part]"
    by (simp add: form_File_readForm unnamed_part_def small_part_def)
  have n: "fh_Filename small_part \<noteq> []"
    using upload_bad_request_parsed [of empty_bucket "Inl io_EOF"
        "[(''files'', unnamed_part), (''files'', small_part)]", THEN conjunct2, THEN conjunct1]
    by (simp add: f)
  have h: "\<forall>np\<in>set [(''files'', unnamed_part)]. fst np = ''files'' \<longrightarrow> fh_Filename (snd np) = []"
    by (simp add: unnamed_part_def)
  have c: "uploadFilesHandler empty_bucket (Inr (readForm [(''files'', unnamed_part)])) =
     (HTTPError 400 ''No files provided for upload.'', empty_bucket)"
    by (rule upload_bad_request_parsed [THEN conjunct2, THEN conjunct2, THEN conjunct1,
          THEN mp, OF h])
  have e: "\<exists>np\<in>set [(''files'', unnamed_part), (''files'', small_part)].
      fst np = ''files'' \<and> fh_Filename (snd np) \<noteq> []"
    by (simp add: small_part_def)
  have d: "status (fst (uploadFilesHandler empty_bucket
      (Inr (readForm [(''files'', unnamed_part), (''files'', small_part)])))) \<noteq> Some 400"
    by (rule upload_bad_request_parsed [THEN conjunct2, THEN conjunct2, THEN conjunct2,
          THEN mp, OF e])
  from a b f n c d show ?thesis by (simp add: unnamed_part_def)
qed

section \<open>Filenames made of separators\<close>

text \<open>
  The base name of a filename that has a character other than \<open>/\<close> contains no \<open>/\<close>.
\<close>

lemma filepath_Base_no_separator:
  assumes "\<exists>c\<in>set path. c \<noteq> CHR ''/''"
  shows "CHR ''/'' \<notin> set (filepath_Base path)"
proof -
  from assms have ne: "path \<noteq> []" by auto
  from assms have "dropWhile IsPathSeparator (rev path) \<noteq> []"
    by (auto simp: dropWhile_eq_Nil_conv IsPathSeparator_def)
  then obtain x xs where d: "dropWhile IsPathSeparator (rev path) = x # xs"
    by (cases "dropWhile IsPathSeparator (rev path)") auto
  then have nx: "\<not> IsPathSeparator x"
    using hd_dropWhile [of IsPathSeparator "rev path"] by simp
  then have t: "takeWhile (\<lambda>c. \<not> IsPathSeparator c) (x # xs) \<noteq> []" by simp
  have "\<forall>c\<in>set (takeWhile (\<lambda>c. \<not> IsPathSeparator c) (x # xs)). \<not> IsPathSeparator c"
    by (auto dest: set_takeWhileD)
  with ne d t show ?thesis
    by (auto simp add: filepath_Base_def Let_def IsPathSeparator_def simp del: takeWhile.simps)
qed

text \<open>
  C10. The key of an upload is meant to hold only the base name of the filename, so
  that it neither contains nor ends with \<open>/\<close> and the object is listed. For the
  filename \<open>/\<close> the base name is \<open>/\<close> itself: the upload is answered with 201 and a
  key that ends with \<open>/\<close>, the object is stored under that key, and the list handler
  leaves it out.
\<close>

theorem slash_filename_not_listed:
  "uploadFilesHandler \<lparr>objects = [], clock = 0\<rparr>
     (Inr [(''files'',
            [\<lparr>fh_Filename = ''/'', fh_Open = Inr [([1, 2, 3], Some io_EOF)],
              uuid_New = ''00000000-0000-4000-8000-000000000001'', put_fault = None\<rparr>])]) =
     (JSON_uploaded 201 ''Files uploaded successfully''
        [''00000000-0000-4000-8000-000000000001_/''],
      \<lparr>objects = [(''00000000-0000-4000-8000-000000000001_/'',
                   \<lparr>content = [1, 2, 3], modified = 0,
                    content_type = ''binary/octet-stream''\<rparr>)],
       clock = 1\<rparr>) \<and>
   listFilesHandler
     \<lparr>objects = [(''00000000-0000-4000-8000-000000000001_/'',
                  \<lparr>content = [1, 2, 3], modified = 0,
                   content_type = ''binary/octet-stream''\<rparr>)],
      clock = 1\<rparr> None = JSON_files 200 []"
proof -
  have k: "uniqueFilename ''00000000-0000-4000-8000-000000000001'' ''/'' =
      ''00000000-0000-4000-8000-000000000001_/''"
    by (simp add: uniqueFilename_def filepath_Base_def IsPathSeparator_def)
  have p: "fst (producer ''/'' [([1, 2, 3], Some io_EOF)] 0 io_Pipe) =
     \<lparr>data = [1, 2, 3], rerr = None, werr = Some io_EOF\<rparr>"
    by (simp add: io_Pipe_def pw_Write_def pw_Close_def pw_CloseWithError_def
        maxFileSizeByte_eq)
  have u: "uploadFilesHandler \<lparr>objects = [], clock = 0\<rparr>
     (Inr [(''files'',
            [\<lparr>fh_Filename = ''/'', fh_Open = Inr [([1, 2, 3], Some io_EOF)],
              uuid_New = ''00000000-0000-4000-8000-000000000001'', put_fault = None\<rparr>])]) =
     (JSON_uploaded 201 ''Files uploaded successfully''
        [''00000000-0000-4000-8000-000000000001_/''],
      \<lparr>objects = [(''00000000-0000-4000-8000-000000000001_/'',
                   \<lparr>content = [1, 2, 3], modified = 0,
                    content_type = ''binary/octet-stream''\<rparr>)],
       clock = 1\<rparr>)"
    by (simp add: k p uploadFilesHandler_def form_File_def s3Uploader_Upload_def put_object_def
        Let_def del: producer.simps)
  have l: "listFilesHandler
     \<lparr>objects = [(''00000000-0000-4000-8000-000000000001_/'',
                  \<lparr>content = [1, 2, 3], modified = 0,
                   content_type = ''binary/octet-stream''\<rparr>)],
      clock = 1\<rparr> None = JSON_files 200 []"
    by (simp add: listFilesHandler_def s3_ListObjectsV2_def strings_HasSuffix_def
        suffix_to_prefix)
  from u l show ?thesis by (rule conjI)
qed

end
